theory Spec2Isabelle
  imports Complex_Main
begin

section \<open>Training orchestration of the formula recogniser\<close>

text \<open>
  This theory embeds \<^verbatim>\<open>train_backup.py\<close> (the per-epoch passes
  \<^verbatim>\<open>train_one_epoch\<close>, \<^verbatim>\<open>valid_one_epoch\<close>, \<^verbatim>\<open>run_epoch\<close> and the
  controller \<^verbatim>\<open>main\<close>) and \<^verbatim>\<open>checkpoint.py\<close>.

  Conventions of the embedding.
  \<^item> Python floats are idealised as \<^typ>\<open>real\<close>; Python integers are \<^typ>\<open>int\<close>.
  \<^item> A two-dimensional integer tensor (batch \<open>\<times>\<close> position) is a list of rows.
  \<^item> Every raise of the source is a value \<open>Inl e\<close> of a result type \<open>error + 'a\<close>.
  \<^item> The network, the optimiser, the gradient scaler and the schedule are external
    objects with hidden mutable state. Their joint state is an abstract \<open>world\<close>;
    each call into them is an \<open>event\<close>, appended to a trace and applied to the world
    by the environment's \<open>effect\<close>. Values they return are read from the world by
    functions of the environment.
  \<^item> The helpers of modules that are not part of the two files (\<^verbatim>\<open>id_to_string\<close>,
    \<^verbatim>\<open>word_error_rate\<close>, \<^verbatim>\<open>sentence_acc\<close>, the criterion, the vocabulary's pad id)
    are fields of the environment.
  \<^item> \<^verbatim>\<open>init_tensorboard\<close> and \<^verbatim>\<open>write_tensorboard\<close> are only present as comments
    in \<^verbatim>\<open>checkpoint.py\<close>; with \<^verbatim>\<open>write_wandb\<close>, the log file and the progress bar
    they are sinks and leave no mark on the model beyond the list of emitted summaries.
\<close>

subsection \<open>Errors, tensors and events\<close>

datatype error =
    ZeroDivisionError
  | UnboundLocalError
  | RuntimeError
  | AttributeError
  | FileNotFoundError
  | KeyError
  | IndexError
  | NotImplementedError
  | ValueError

type_synonym tensor2 = "int list list"

text \<open>\<^verbatim>\<open>t[t == a] = b\<close>\<close>

definition masked_fill :: "int \<Rightarrow> int \<Rightarrow> tensor2 \<Rightarrow> tensor2" where
  "masked_fill a b t = map (map (\<lambda>x. if x = a then b else x)) t"

text \<open>\<^verbatim>\<open>t[:, 1:]\<close>\<close>

definition shift1 :: "tensor2 \<Rightarrow> tensor2" where
  "shift1 t = map (drop 1) t"

definition same_shape :: "tensor2 \<Rightarrow> tensor2 \<Rightarrow> bool" where
  "same_shape s t = (map length s = map length t)"

text \<open>
  \<^verbatim>\<open>torch.sum(s == t, dim=(0, 1)).item()\<close>. The comparison is modelled on tensors of
  equal shape, which the loss computed on the same pair of shapes requires; on any
  other pair the model raises.
\<close>

definition count_equal :: "tensor2 \<Rightarrow> tensor2 \<Rightarrow> error + int" where
  "count_equal s t =
     (if same_shape s t
      then Inr (int (length (filter (\<lambda>(x, y). x = y) (zip (concat s) (concat t)))))
      else Inl RuntimeError)"

text \<open>\<^verbatim>\<open>torch.sum(t != v, dim=(0, 1)).item()\<close>\<close>

definition count_differs :: "tensor2 \<Rightarrow> int \<Rightarrow> int" where
  "count_differs t v = int (length (filter (\<lambda>x. x \<noteq> v) (concat t)))"

text \<open>\<^verbatim>\<open>np.mean\<close> of a list of numbers; only ever reached on a list with an entry.\<close>

definition np_mean :: "real list \<Rightarrow> real" where
  "np_mean xs = sum_list xs / real (length xs)"

text \<open>True division of two Python integers, and of a float by an integer.\<close>

definition int_truediv :: "int \<Rightarrow> int \<Rightarrow> error + real" where
  "int_truediv a b = (if b = 0 then Inl ZeroDivisionError else Inr (real_of_int a / real_of_int b))"

definition float_truediv :: "real \<Rightarrow> int \<Rightarrow> error + real" where
  "float_truediv a b = (if b = 0 then Inl ZeroDivisionError else Inr (a / real_of_int b))"

text \<open>
  The calls into the external objects, in the order the passes make them. A forward
  call carries the reference tensor it was given, the training flag, the teacher
  forcing ratio and the gradient mode that was in force when it ran.
\<close>

datatype event =
    SetGradEnabled bool
  | ModelTrain
  | ModelEval
  | ModelCall tensor2 bool real bool
  | ZeroGrad
  | ScaleLoss real
  | Backward
  | Unscale
  | ClipGradNorm real
  | OptimizerStep
  | ScalerStep
  | ScalerUpdate
  | SchedulerStep

datatype device = Cpu | Cuda nat

text \<open>A tensor's storage: where it lives and what it holds.\<close>

record storage =
  device :: device
  payload :: "real list"

type_synonym state_dict = "(string \<times> storage) list"

record param_group =
  pg_lr :: real
  pg_weight_decay :: real
  pg_initial_lr :: "real option"

text \<open>An optimiser, and equally its \<^verbatim>\<open>state_dict()\<close>: the parameter groups and the
  per-parameter buffers.\<close>

record optimizer =
  param_groups :: "param_group list"
  buffers :: state_dict

record 'img batch =
  image :: 'img
  encoded :: tensor2

text \<open>
  The environment of a run, over a world \<open>'w\<close>, images \<open>'img\<close> and network outputs
  \<open>'out\<close>:
  \<^item> \<open>pad_id\<close> is \<^verbatim>\<open>data_loader.dataset.token_to_id[PAD]\<close>;
  \<^item> \<open>model w input expected train ratio\<close> is the output of
    \<^verbatim>\<open>model(input, expected, train, teacher_forcing_ratio)\<close> in the world \<open>w\<close>;
  \<^item> \<open>topk1\<close> is the per-position arg-max of an output, that is
    \<^verbatim>\<open>torch.topk(output.transpose(1, 2), 1, dim=1)\<close> with the singleton axis squeezed;
  \<^item> \<open>criterion\<close> is the loss of an output against a shifted reference;
  \<^item> \<open>clip_grad_norm w m\<close> is the total norm \<^verbatim>\<open>nn.utils.clip_grad_norm_\<close> returns;
  \<^item> \<open>get_lr\<close> is \<^verbatim>\<open>lr_scheduler.get_lr()\<close>;
  \<^item> \<open>id_to_string do_eval t\<close>, \<open>word_error_rate\<close> and \<open>sentence_acc\<close> are the helpers
    of those names;
  \<^item> \<open>effect\<close> is what a call does to the world;
  \<^item> \<open>model_state_dict\<close> and \<open>optimizer_state_dict\<close> read the two \<^verbatim>\<open>state_dict()\<close>s;
  \<^item> \<open>token_to_id\<close> and \<open>id_to_token\<close> are the vocabulary of the training dataset.
\<close>

record ('w, 'img, 'out) env =
  pad_id :: int
  model :: "'w \<Rightarrow> 'img \<Rightarrow> tensor2 \<Rightarrow> bool \<Rightarrow> real \<Rightarrow> 'out"
  topk1 :: "'out \<Rightarrow> tensor2"
  criterion :: "'out \<Rightarrow> tensor2 \<Rightarrow> real"
  clip_grad_norm :: "'w \<Rightarrow> real \<Rightarrow> real"
  get_lr :: "'w \<Rightarrow> real list"
  id_to_string :: "bool \<Rightarrow> tensor2 \<Rightarrow> string list"
  word_error_rate :: "string list \<Rightarrow> string list \<Rightarrow> real"
  sentence_acc :: "string list \<Rightarrow> string list \<Rightarrow> real"
  effect :: "event \<Rightarrow> 'w \<Rightarrow> 'w"
  model_state_dict :: "'w \<Rightarrow> state_dict"
  optimizer_state_dict :: "'w \<Rightarrow> optimizer"
  token_to_id :: "(string \<times> int) list"
  id_to_token :: "(int \<times> string) list"

record 'w proc =
  world :: 'w
  grad_enabled :: bool
  events :: "event list"

definition emit :: "('w, 'img, 'out) env \<Rightarrow> event \<Rightarrow> 'w proc \<Rightarrow> 'w proc" where
  "emit env e p = p\<lparr>world := effect env e (world p), events := events p @ [e]\<rparr>"

text \<open>\<^verbatim>\<open>torch.set_grad_enabled(b)\<close>\<close>

definition set_grad_enabled :: "('w, 'img, 'out) env \<Rightarrow> bool \<Rightarrow> 'w proc \<Rightarrow> 'w proc" where
  "set_grad_enabled env b p = emit env (SetGradEnabled b) (p\<lparr>grad_enabled := b\<rparr>)"

subsection \<open>The passes over the batches\<close>

text \<open>The local accumulators of a pass.\<close>

record pass_acc =
  losses :: "real list"
  grad_norms :: "real list"
  correct_symbols :: int
  total_symbols :: int
  wer :: real
  num_wer :: int
  sent_acc :: real
  num_sent_acc :: int

definition pass_acc_init :: pass_acc where
  "pass_acc_init =
     \<lparr>losses = [], grad_norms = [], correct_symbols = 0, total_symbols = 0,
      wer = 0, num_wer = 0, sent_acc = 0, num_sent_acc = 0\<rparr>"

text \<open>The dictionary a pass returns; \<open>res_grad_norm\<close> is absent after a validation pass.\<close>

record epoch_result =
  res_loss :: real
  res_correct_symbols :: int
  res_total_symbols :: int
  res_wer :: real
  res_num_wer :: int
  res_sent_acc :: real
  res_num_sent_acc :: int
  res_grad_norm :: "real option"

definition result_of :: "pass_acc \<Rightarrow> real option \<Rightarrow> epoch_result" where
  "result_of a g =
     \<lparr>res_loss = np_mean (losses a),
      res_correct_symbols = correct_symbols a,
      res_total_symbols = total_symbols a,
      res_wer = wer a,
      res_num_wer = num_wer a,
      res_sent_acc = sent_acc a,
      res_num_sent_acc = num_sent_acc a,
      res_grad_norm = g\<rparr>"

text \<open>
  The metric block that closes every batch of the three passes: the pad id is put back
  to \<open>-1\<close> in the reference, both tensors are rendered as strings for the word error
  rate and the sentence accuracy, and the symbol counts are taken on the tensors.
  \<open>batch_scores\<close> holds the four values the block computes, \<open>batch_metrics\<close> adds
  them to the accumulators.
\<close>

record batch_score =
  b_wer :: real
  b_sent_acc :: real
  b_correct :: int
  b_total :: int

definition batch_scores ::
  "('w, 'img, 'out) env \<Rightarrow> tensor2 \<Rightarrow> tensor2 \<Rightarrow> error + batch_score" where
  "batch_scores env expected sequence =
     (let expected' = masked_fill (pad_id env) (- 1) expected;
          expected_str = id_to_string env True expected';
          sequence_str = id_to_string env True sequence
      in case count_equal sequence (shift1 expected') of
           Inl e \<Rightarrow> Inl e
         | Inr c \<Rightarrow>
             Inr \<lparr>b_wer = word_error_rate env sequence_str expected_str,
                  b_sent_acc = sentence_acc env sequence_str expected_str,
                  b_correct = c,
                  b_total = count_differs (shift1 expected') (- 1)\<rparr>)"

definition batch_metrics ::
  "('w, 'img, 'out) env \<Rightarrow> tensor2 \<Rightarrow> tensor2 \<Rightarrow> pass_acc \<Rightarrow> error + pass_acc" where
  "batch_metrics env expected sequence a =
     (case batch_scores env expected sequence of
        Inl e \<Rightarrow> Inl e
      | Inr b \<Rightarrow>
          Inr (a\<lparr>wer := wer a + b_wer b,
                 num_wer := num_wer a + 1,
                 sent_acc := sent_acc a + b_sent_acc b,
                 num_sent_acc := num_sent_acc a + 1,
                 correct_symbols := correct_symbols a + b_correct b,
                 total_symbols := total_symbols a + b_total b\<rparr>))"

text \<open>One iteration of the loop of \<^verbatim>\<open>train_one_epoch\<close>.\<close>

definition train_batch ::
  "('w, 'img, 'out) env \<Rightarrow> real \<Rightarrow> real \<Rightarrow> 'w proc \<times> pass_acc \<Rightarrow> 'img batch
     \<Rightarrow> error + 'w proc \<times> pass_acc" where
  "train_batch env teacher_forcing_ratio max_grad_norm s d =
     (let p = fst s; a = snd s;
          expected = masked_fill (- 1) (pad_id env) (encoded d);
          output = model env (world p) (image d) expected True teacher_forcing_ratio;
          p1 = emit env (ModelCall expected True teacher_forcing_ratio (grad_enabled p)) p;
          sequence = topk1 env output;
          loss = criterion env output (shift1 expected);
          p2 = emit env ZeroGrad p1;
          p3 = emit env Backward (emit env (ScaleLoss loss) p2);
          p4 = emit env Unscale p3;
          grad_norm = clip_grad_norm env (world p4) max_grad_norm;
          p5 = emit env (ClipGradNorm max_grad_norm) p4;
          a1 = a\<lparr>grad_norms := grad_norms a @ [grad_norm]\<rparr>;
          p6 = emit env ScalerStep p5;
          p7 = emit env ScalerUpdate p6;
          a2 = a1\<lparr>losses := losses a1 @ [loss]\<rparr>
      in case batch_metrics env expected sequence a2 of
           Inl e \<Rightarrow> Inl e
         | Inr a3 \<Rightarrow> Inr (emit env SchedulerStep p7, a3))"

text \<open>One iteration of the loop of \<^verbatim>\<open>valid_one_epoch\<close>.\<close>

definition valid_batch ::
  "('w, 'img, 'out) env \<Rightarrow> real \<Rightarrow> 'w proc \<times> pass_acc \<Rightarrow> 'img batch
     \<Rightarrow> error + 'w proc \<times> pass_acc" where
  "valid_batch env teacher_forcing_ratio s d =
     (let p = fst s; a = snd s;
          expected = masked_fill (- 1) (pad_id env) (encoded d);
          output = model env (world p) (image d) expected False teacher_forcing_ratio;
          p1 = emit env (ModelCall expected False teacher_forcing_ratio (grad_enabled p)) p;
          sequence = topk1 env output;
          loss = criterion env output (shift1 expected);
          a1 = a\<lparr>losses := losses a @ [loss]\<rparr>
      in case batch_metrics env expected sequence a1 of
           Inl e \<Rightarrow> Inl e
         | Inr a2 \<Rightarrow> Inr (p1, a2))"

text \<open>A \<^verbatim>\<open>for\<close> loop over a list: the first raise ends it.\<close>

fun for_batches ::
  "('s \<Rightarrow> 'd \<Rightarrow> error + 's) \<Rightarrow> 's \<Rightarrow> 'd list \<Rightarrow> error + 's" where
  "for_batches body s [] = Inr s"
| "for_batches body s (d # ds) =
     (case body s d of Inl e \<Rightarrow> Inl e | Inr s' \<Rightarrow> for_batches body s' ds)"

text \<open>
  After the loop both passes read the loop variables \<^verbatim>\<open>expected\<close> and
  \<^verbatim>\<open>sequence\<close>, which are unbound when the loader yielded no batch.
\<close>

definition train_one_epoch ::
  "('w, 'img, 'out) env \<Rightarrow> 'img batch list \<Rightarrow> real \<Rightarrow> real \<Rightarrow> 'w proc
     \<Rightarrow> error + epoch_result \<times> 'w proc" where
  "train_one_epoch env data_loader teacher_forcing_ratio max_grad_norm p =
     (let p1 = emit env ModelTrain (set_grad_enabled env True p)
      in case for_batches (train_batch env teacher_forcing_ratio max_grad_norm)
                (p1, pass_acc_init) data_loader of
           Inl e \<Rightarrow> Inl e
         | Inr s \<Rightarrow>
             if data_loader = [] then Inl UnboundLocalError
             else Inr (result_of (snd s) (Some (np_mean (grad_norms (snd s)))), fst s))"

definition valid_one_epoch ::
  "('w, 'img, 'out) env \<Rightarrow> 'img batch list \<Rightarrow> real \<Rightarrow> 'w proc
     \<Rightarrow> error + epoch_result \<times> 'w proc" where
  "valid_one_epoch env data_loader teacher_forcing_ratio p =
     (let p1 = emit env ModelEval p
      in case for_batches (valid_batch env teacher_forcing_ratio)
                (p1, pass_acc_init) data_loader of
           Inl e \<Rightarrow> Inl e
         | Inr s \<Rightarrow>
             if data_loader = [] then Inl UnboundLocalError
             else Inr (result_of (snd s) None, fst s))"

text \<open>
  \<^verbatim>\<open>run_epoch\<close>, the single-function pass with a \<^verbatim>\<open>train\<close> flag that the two
  functions above replace in \<^verbatim>\<open>main\<close>. It runs without the gradient scaler, steps the
  schedule before the optimiser, and sets the gradient mode from the flag
  (its comment: ``Disables autograd during validation mode'').
\<close>

definition run_batch ::
  "('w, 'img, 'out) env \<Rightarrow> real \<Rightarrow> real \<Rightarrow> bool \<Rightarrow> 'w proc \<times> pass_acc \<Rightarrow> 'img batch
     \<Rightarrow> error + 'w proc \<times> pass_acc" where
  "run_batch env teacher_forcing_ratio max_grad_norm train s d =
     (let p = fst s; a = snd s;
          expected = masked_fill (- 1) (pad_id env) (encoded d);
          output = model env (world p) (image d) expected train teacher_forcing_ratio;
          p1 = emit env (ModelCall expected train teacher_forcing_ratio (grad_enabled p)) p;
          sequence = topk1 env output;
          loss = criterion env output (shift1 expected);
          p3 = (if train then emit env Backward (emit env ZeroGrad p1) else p1);
          a1 = (if train
                then a\<lparr>grad_norms := grad_norms a @ [clip_grad_norm env (world p3) max_grad_norm]\<rparr>
                else a);
          p4 = (if train
                then emit env OptimizerStep
                       (emit env SchedulerStep (emit env (ClipGradNorm max_grad_norm) p3))
                else p3);
          a2 = a1\<lparr>losses := losses a1 @ [loss]\<rparr>
      in case batch_metrics env expected sequence a2 of
           Inl e \<Rightarrow> Inl e
         | Inr a3 \<Rightarrow> Inr (p4, a3))"

definition run_epoch ::
  "('w, 'img, 'out) env \<Rightarrow> 'img batch list \<Rightarrow> real \<Rightarrow> real \<Rightarrow> bool \<Rightarrow> 'w proc
     \<Rightarrow> error + epoch_result \<times> 'w proc" where
  "run_epoch env data_loader teacher_forcing_ratio max_grad_norm train p =
     (let p0 = set_grad_enabled env train p;
          p1 = emit env (if train then ModelTrain else ModelEval) p0
      in case for_batches (run_batch env teacher_forcing_ratio max_grad_norm train)
                (p1, pass_acc_init) data_loader of
           Inl e \<Rightarrow> Inl e
         | Inr s \<Rightarrow>
             if data_loader = [] then Inl UnboundLocalError
             else Inr (result_of (snd s)
                         (if train then Some (np_mean (grad_norms (snd s))) else None), fst s))"

subsection \<open>Checkpoints\<close>

text \<open>
  The dictionary that is saved and loaded. Keys that some dictionaries lack
  (\<^verbatim>\<open>"optimizer"\<close> and \<^verbatim>\<open>"network"\<close> in \<^verbatim>\<open>default_checkpoint\<close>, \<^verbatim>\<open>"scheduler"\<close> and
  \<^verbatim>\<open>"scheduler_name"\<close> in what \<^verbatim>\<open>main\<close> saves) are optional fields.
\<close>

record checkpoint =
  ck_epoch :: int
  ck_train_losses :: "real list"
  ck_train_symbol_accuracy :: "real list"
  ck_train_sentence_accuracy :: "real list"
  ck_train_wer :: "real list"
  ck_validation_losses :: "real list"
  ck_validation_symbol_accuracy :: "real list"
  ck_validation_sentence_accuracy :: "real list"
  ck_validation_wer :: "real list"
  ck_lr :: "real list"
  ck_grad_norm :: "real list"
  ck_model :: state_dict
  ck_optimizer :: "optimizer option"
  ck_configs :: "(string \<times> string) list"
  ck_token_to_id :: "(string \<times> int) list"
  ck_id_to_token :: "(int \<times> string) list"
  ck_network :: "string option"
  ck_scheduler :: "(string \<times> string) list option"
  ck_scheduler_name :: "string option"

definition default_checkpoint :: checkpoint where
  "default_checkpoint =
     \<lparr>ck_epoch = 0,
      ck_train_losses = [],
      ck_train_symbol_accuracy = [],
      ck_train_sentence_accuracy = [],
      ck_train_wer = [],
      ck_validation_losses = [],
      ck_validation_symbol_accuracy = [],
      ck_validation_sentence_accuracy = [],
      ck_validation_wer = [],
      ck_lr = [],
      ck_grad_norm = [],
      ck_model = [],
      ck_optimizer = None,
      ck_configs = [],
      ck_token_to_id = [],
      ck_id_to_token = [],
      ck_network = None,
      ck_scheduler = Some [],
      ck_scheduler_name = Some []\<rparr>"

text \<open>\<^verbatim>\<open>os.path.join\<close> on relative components.\<close>

definition path_join :: "string \<Rightarrow> string \<Rightarrow> string" where
  "path_join a b =
     (if a = [] then b else if last a = CHR ''/'' then a @ b else a @ ''/'' @ b)"

text \<open>
  \<^verbatim>\<open>save_checkpoint(checkpoint, dir="./checkpoints", prefix="")\<close>: the file written
  and its content. The directory is created when it is missing; a file of the same
  name is overwritten.
\<close>

definition save_checkpoint ::
  "checkpoint \<Rightarrow> string \<Rightarrow> (string \<rightharpoonup> checkpoint) \<Rightarrow> error + (string \<rightharpoonup> checkpoint)" where
  "save_checkpoint ckpt prefix fs =
     (case ck_network ckpt of
        None \<Rightarrow> Inl KeyError
      | Some network \<Rightarrow>
          Inr (fs(path_join (path_join prefix ''./checkpoints'') (network @ ''_best_model.pth'')
                    \<mapsto> ckpt)))"

definition map_state_dict :: "(storage \<Rightarrow> storage) \<Rightarrow> state_dict \<Rightarrow> state_dict" where
  "map_state_dict f sd = map (\<lambda>(k, s). (k, f s)) sd"

definition map_storages :: "(storage \<Rightarrow> storage) \<Rightarrow> checkpoint \<Rightarrow> checkpoint" where
  "map_storages f c =
     c\<lparr>ck_model := map_state_dict f (ck_model c),
       ck_optimizer :=
         (case ck_optimizer c of
            None \<Rightarrow> None
          | Some opt \<Rightarrow> Some (opt\<lparr>buffers := map_state_dict f (buffers opt)\<rparr>))\<rparr>"

text \<open>
  \<^verbatim>\<open>torch.load(path, map_location)\<close>, as the library documents it: every storage is
  first deserialised on the host; without \<^verbatim>\<open>map_location\<close> it is then moved to the
  device it was saved from; a callable \<^verbatim>\<open>map_location\<close> receives the host storage
  and the saved location, and the storage it returns is final (when it returns
  nothing the default applies). A missing file raises.
\<close>

definition torch_load ::
  "(string \<rightharpoonup> checkpoint) \<Rightarrow> string \<Rightarrow> (storage \<Rightarrow> device \<Rightarrow> storage option) option
     \<Rightarrow> error + checkpoint" where
  "torch_load fs path map_location =
     (case fs path of
        None \<Rightarrow> Inl FileNotFoundError
      | Some c \<Rightarrow>
          Inr (case map_location of
                 None \<Rightarrow> c
               | Some f \<Rightarrow>
                   map_storages
                     (\<lambda>s. case f (s\<lparr>device := Cpu\<rparr>) (device s) of
                             None \<Rightarrow> s
                           | Some s' \<Rightarrow> s') c))"

definition load_checkpoint ::
  "(string \<rightharpoonup> checkpoint) \<Rightarrow> string \<Rightarrow> bool \<Rightarrow> error + checkpoint" where
  "load_checkpoint fs path cuda =
     (if cuda then torch_load fs path None
      else torch_load fs path (Some (\<lambda>storage loc. Some storage)))"

subsection \<open>The controller\<close>

text \<open>The options \<^verbatim>\<open>main\<close> reads from the configuration; \<open>opt_others\<close> stands for
  every further numeric key the configuration file may hold.\<close>

record options =
  opt_network :: string
  opt_checkpoint :: string
  opt_scheduler :: string
  opt_optimizer :: string
  opt_lr :: real
  opt_weight_decay :: real
  opt_lr_epochs :: int
  opt_lr_factor :: real
  opt_num_epochs :: int
  opt_print_epochs :: "int option"
  opt_prefix :: string
  opt_teacher_forcing_ratio :: real
  opt_max_grad_norm :: real
  opt_others :: "(string \<times> real) list"

text \<open>The schedule objects \<^verbatim>\<open>main\<close> constructs, with the arguments it passes.\<close>

datatype scheduler =
    CustomCosineAnnealingWarmUpRestarts int int real int real
  | StepLR int real
  | CircularLRBeta real int int int "real list"

text \<open>\<^verbatim>\<open>options.checkpoint != ""\<close> decides between a load and the default.\<close>

definition select_checkpoint ::
  "options \<Rightarrow> (string \<rightharpoonup> checkpoint) \<Rightarrow> bool \<Rightarrow> error + checkpoint" where
  "select_checkpoint opts fs is_cuda =
     (if opt_checkpoint opts \<noteq> [] then load_checkpoint fs (opt_checkpoint opts) is_cuda
      else Inr default_checkpoint)"

text \<open>The report on a resumed checkpoint reads the last entry of eight histories.\<close>

definition report_checkpoint :: "checkpoint \<Rightarrow> error + unit" where
  "report_checkpoint c =
     (if ck_model c = [] then Inr ()
      else if ck_train_symbol_accuracy c = [] \<or> ck_train_sentence_accuracy c = []
              \<or> ck_train_wer c = [] \<or> ck_train_losses c = []
              \<or> ck_validation_symbol_accuracy c = [] \<or> ck_validation_sentence_accuracy c = []
              \<or> ck_validation_wer c = [] \<or> ck_validation_losses c = []
           then Inl IndexError
           else Inr ())"

text \<open>
  \<^verbatim>\<open>optimizer.load_state_dict\<close>, as the library documents it: the saved parameter
  groups and buffers replace the optimiser's own; a different number of groups raises.
\<close>

definition load_state_dict :: "optimizer \<Rightarrow> optimizer \<Rightarrow> error + optimizer" where
  "load_state_dict optimizer_state optimizer =
     (if length (param_groups optimizer_state) \<noteq> length (param_groups optimizer)
      then Inl ValueError else Inr optimizer_state)"

text \<open>
  The optimiser of \<^verbatim>\<open>main\<close>: built by \<^verbatim>\<open>get_optimizer\<close> (of a module outside the two
  files, hence a parameter: it receives the optimiser's name, the learning rate and the
  weight decay) and then, when the checkpoint holds an optimiser state, overwritten
  with that state.
\<close>

definition build_optimizer ::
  "(string \<Rightarrow> real \<Rightarrow> real \<Rightarrow> error + optimizer) \<Rightarrow> options \<Rightarrow> checkpoint
     \<Rightarrow> error + optimizer" where
  "build_optimizer get_optimizer opts checkpoint =
     (case (if opt_scheduler opts = ''CustomCosine''
            then get_optimizer (opt_optimizer opts) 0 (opt_weight_decay opts)
            else get_optimizer (opt_optimizer opts) (opt_lr opts) (opt_weight_decay opts)) of
        Inl e \<Rightarrow> Inl e
      | Inr optimizer \<Rightarrow>
          (case ck_optimizer checkpoint of
             None \<Rightarrow> Inr optimizer
           | Some optimizer_state \<Rightarrow> load_state_dict optimizer_state optimizer))"

text \<open>
  Modelled from the spec: the state of the cosine-annealing-with-warm-up-restarts
  schedule, class \<^verbatim>\<open>CustomCosineAnnealingWarmUpRestarts\<close> of the module
  \<^verbatim>\<open>scheduler\<close>, which is not among the source files. The spec gives it a restart
  period, a period multiplier, a peak rate, a warm-up length and a per-restart decay,
  and a step \<open>t\<close> within the current restart window of length \<open>T_cur\<close>.
\<close>

record cosine_schedule =
  cs_T_cur :: int
  cs_T_mult :: int
  cs_eta_max :: real
  cs_T_up :: int
  cs_gamma :: real
  cs_t :: int

text \<open>
  Modelled from the spec: \<^verbatim>\<open>current_rate()\<close> of that schedule. ``For step \<open>t\<close> within
  the current restart window of length \<open>T_cur\<close> with warm-up length \<open>T_up\<close>: if
  \<open>t < T_up\<close>, rate = \<open>eta_max * t / T_up\<close> (linear warm-up); else rate =
  \<open>eta_max * (1 + cos (pi * (t - T_up) / (T_cur - T_up))) / 2\<close>.''
\<close>

definition current_rate :: "cosine_schedule \<Rightarrow> real" where
  "current_rate s =
     (if cs_t s < cs_T_up s
      then cs_eta_max s * real_of_int (cs_t s) / real_of_int (cs_T_up s)
      else cs_eta_max s
             * (1 + cos (pi * real_of_int (cs_t s - cs_T_up s)
                           / real_of_int (cs_T_cur s - cs_T_up s))) / 2)"

text \<open>
  Modelled from the spec: \<^verbatim>\<open>advance()\<close> of that schedule. It consumes one step; ``on
  crossing \<open>T_cur\<close>, reset \<open>t\<close>, multiply the window length by \<open>T_mult\<close>, multiply
  \<open>eta_max\<close> by \<open>gamma\<close>.''
\<close>

definition advance :: "cosine_schedule \<Rightarrow> cosine_schedule" where
  "advance s =
     (if cs_t s + 1 \<ge> cs_T_cur s
      then s\<lparr>cs_t := 0, cs_T_cur := cs_T_cur s * cs_T_mult s,
              cs_eta_max := cs_eta_max s * cs_gamma s\<rparr>
      else s\<lparr>cs_t := cs_t s + 1\<rparr>)"

text \<open>
  Modelled from the spec: the schedule as its constructor leaves it, at step 0 of a
  first window of length \<open>T_0\<close>.
\<close>

definition cosine_start :: "int \<Rightarrow> int \<Rightarrow> real \<Rightarrow> int \<Rightarrow> real \<Rightarrow> cosine_schedule" where
  "cosine_start T_0 T_mult eta_max T_up gamma =
     \<lparr>cs_T_cur = T_0, cs_T_mult = T_mult, cs_eta_max = eta_max, cs_T_up = T_up,
      cs_gamma = gamma, cs_t = 0\<rparr>"

text \<open>
  Modelled from the spec: how the schedule's rate reaches the optimiser. The current
  rate is ``applied to the optimizer before the next forward pass'', and it is ``usable
  as a direct scalar assignment to every optimizer parameter group''.
\<close>

definition assign_rate :: "real \<Rightarrow> optimizer \<Rightarrow> optimizer" where
  "assign_rate r optimizer =
     optimizer\<lparr>param_groups := map (\<lambda>g. g\<lparr>pg_lr := r\<rparr>) (param_groups optimizer)\<rparr>"

text \<open>
  The schedule of \<^verbatim>\<open>main\<close>, and the optimiser once the schedule is constructed on it.
  Under \<^verbatim>\<open>"CustomCosine"\<close> the optimiser has the rate of the new schedule assigned, as
  modelled above. What the constructors of the library's \<^verbatim>\<open>StepLR\<close> and of
  \<^verbatim>\<open>CircularLRBeta\<close> do to the parameter groups is the parameter \<open>ctor\<close>. The
  plateau branch reads \<^verbatim>\<open>options.schduler\<close>, an attribute the options do not have; a
  name outside the four constructs nothing and leaves \<^verbatim>\<open>lr_scheduler\<close> unbound. The
  cyclical branch first writes \<^verbatim>\<open>initial_lr\<close> into every parameter group.
\<close>

definition build_scheduler ::
  "(scheduler \<Rightarrow> optimizer \<Rightarrow> optimizer) \<Rightarrow> options \<Rightarrow> int \<Rightarrow> optimizer
     \<Rightarrow> error + optimizer \<times> scheduler option" where
  "build_scheduler ctor opts len_train_data_loader optimizer =
     (if opt_scheduler opts = ''CustomCosine''
      then Inr (assign_rate
                  (current_rate (cosine_start (opt_num_epochs opts) 1 (opt_lr opts) 2 1))
                  optimizer,
                Some (CustomCosineAnnealingWarmUpRestarts (opt_num_epochs opts) 1 (opt_lr opts) 2 1))
      else if opt_scheduler opts = ''ReduceLROnPlateau'' then Inl AttributeError
      else if opt_scheduler opts = ''StepLR''
      then Inr (ctor (StepLR (opt_lr_epochs opts) (opt_lr_factor opts)) optimizer,
                Some (StepLR (opt_lr_epochs opts) (opt_lr_factor opts)))
      else if opt_scheduler opts = ''Cycle''
      then Inr (ctor
                  (CircularLRBeta (opt_lr opts) 10 10
                     (len_train_data_loader * opt_num_epochs opts) [0.95, 0.85])
                  (optimizer\<lparr>param_groups :=
                               map (\<lambda>g. g\<lparr>pg_initial_lr := Some (opt_lr opts)\<rparr>)
                                 (param_groups optimizer)\<rparr>),
                Some (CircularLRBeta (opt_lr opts) 10 10
                        (len_train_data_loader * opt_num_epochs opts) [0.95, 0.85]))
      else Inr (optimizer, None))"

text \<open>
  The variables of \<^verbatim>\<open>main\<close> that live across epochs. \<open>epoch_grad_norms\<close> is
  \<^verbatim>\<open>main\<close>'s \<^verbatim>\<open>grad_norms\<close>; \<open>files\<close> is the file system under the prefix; \<open>saved\<close>
  lists the dictionaries handed to \<^verbatim>\<open>save_checkpoint\<close>, oldest first; \<open>summaries\<close>
  lists the epoch numbers for which a summary was emitted.
\<close>

record 'w main_state =
  proc :: "'w proc"
  files :: "string \<rightharpoonup> checkpoint"
  train_symbol_accuracy :: "real list"
  train_sentence_accuracy :: "real list"
  train_wer :: "real list"
  train_losses :: "real list"
  validation_symbol_accuracy :: "real list"
  validation_sentence_accuracy :: "real list"
  validation_wer :: "real list"
  validation_losses :: "real list"
  learning_rates :: "real list"
  epoch_grad_norms :: "real list"
  best_sentence_acc :: real
  saved :: "checkpoint list"
  summaries :: "int list"

definition main_init ::
  "checkpoint \<Rightarrow> 'w proc \<Rightarrow> (string \<rightharpoonup> checkpoint) \<Rightarrow> 'w main_state" where
  "main_init checkpoint p fs =
     \<lparr>proc = p,
      files = fs,
      train_symbol_accuracy = ck_train_symbol_accuracy checkpoint,
      train_sentence_accuracy = ck_train_sentence_accuracy checkpoint,
      train_wer = ck_train_wer checkpoint,
      train_losses = ck_train_losses checkpoint,
      validation_symbol_accuracy = ck_validation_symbol_accuracy checkpoint,
      validation_sentence_accuracy = ck_validation_sentence_accuracy checkpoint,
      validation_wer = ck_validation_wer checkpoint,
      validation_losses = ck_validation_losses checkpoint,
      learning_rates = ck_lr checkpoint,
      epoch_grad_norms = ck_grad_norm checkpoint,
      best_sentence_acc = 0.0,
      saved = [],
      summaries = []\<rparr>"

text \<open>The block under \<^verbatim>\<open># Train\<close>, after the pass has returned.\<close>

definition train_block :: "'w main_state \<Rightarrow> epoch_result \<Rightarrow> error + 'w main_state" where
  "train_block st train_result =
     (case res_grad_norm train_result of
        None \<Rightarrow> Inl KeyError
      | Some g \<Rightarrow>
     (case int_truediv (res_correct_symbols train_result) (res_total_symbols train_result) of
        Inl e \<Rightarrow> Inl e
      | Inr train_epoch_symbol_accuracy \<Rightarrow>
     (case float_truediv (res_sent_acc train_result) (res_num_sent_acc train_result) of
        Inl e \<Rightarrow> Inl e
      | Inr train_epoch_sentence_accuracy \<Rightarrow>
     (case float_truediv (res_wer train_result) (res_num_wer train_result) of
        Inl e \<Rightarrow> Inl e
      | Inr train_epoch_wer \<Rightarrow>
          Inr (st\<lparr>train_losses := train_losses st @ [res_loss train_result],
                 epoch_grad_norms := epoch_grad_norms st @ [g],
                 train_symbol_accuracy := train_symbol_accuracy st @ [train_epoch_symbol_accuracy],
                 train_sentence_accuracy :=
                   train_sentence_accuracy st @ [train_epoch_sentence_accuracy],
                 train_wer := train_wer st @ [train_epoch_wer]\<rparr>)))))"

text \<open>The block under \<^verbatim>\<open># Validation\<close>; it hands the epoch's sentence accuracy and
  word error rate on to the save decision.\<close>

definition validation_block ::
  "'w main_state \<Rightarrow> epoch_result \<Rightarrow> error + 'w main_state \<times> real \<times> real" where
  "validation_block st validation_result =
     (case int_truediv (res_correct_symbols validation_result)
             (res_total_symbols validation_result) of
        Inl e \<Rightarrow> Inl e
      | Inr validation_epoch_symbol_accuracy \<Rightarrow>
     (case float_truediv (res_sent_acc validation_result) (res_num_sent_acc validation_result) of
        Inl e \<Rightarrow> Inl e
      | Inr validation_epoch_sentence_accuracy \<Rightarrow>
     (case float_truediv (res_wer validation_result) (res_num_wer validation_result) of
        Inl e \<Rightarrow> Inl e
      | Inr validation_epoch_wer \<Rightarrow>
          Inr (st\<lparr>validation_losses := validation_losses st @ [res_loss validation_result],
                 validation_symbol_accuracy :=
                   validation_symbol_accuracy st @ [validation_epoch_symbol_accuracy],
                 validation_sentence_accuracy :=
                   validation_sentence_accuracy st @ [validation_epoch_sentence_accuracy],
                 validation_wer := validation_wer st @ [validation_epoch_wer]\<rparr>,
               validation_epoch_sentence_accuracy, validation_epoch_wer))))"

text \<open>The block under \<^verbatim>\<open># Save checkpoint\<close>.\<close>

definition save_block ::
  "('w, 'img, 'out) env \<Rightarrow> options \<Rightarrow> (string \<times> string) list \<Rightarrow> int \<Rightarrow> nat \<Rightarrow> real list
     \<Rightarrow> real \<Rightarrow> real \<Rightarrow> 'w main_state \<Rightarrow> error + 'w main_state" where
  "save_block env opts option_dict start_epoch epoch epoch_lr
       validation_epoch_sentence_accuracy validation_epoch_wer st =
     (if best_sentence_acc st
           < 0.9 * validation_epoch_sentence_accuracy + 0.1 * (1 - validation_epoch_wer)
      then
        (let ckpt =
           \<lparr>ck_epoch = start_epoch + int epoch + 1,
            ck_train_losses = train_losses st,
            ck_train_symbol_accuracy = train_symbol_accuracy st,
            ck_train_sentence_accuracy = train_sentence_accuracy st,
            ck_train_wer = train_wer st,
            ck_validation_losses = validation_losses st,
            ck_validation_symbol_accuracy = validation_symbol_accuracy st,
            ck_validation_sentence_accuracy = validation_sentence_accuracy st,
            ck_validation_wer = validation_wer st,
            ck_lr = epoch_lr,
            ck_grad_norm = epoch_grad_norms st,
            ck_model = model_state_dict env (world (proc st)),
            ck_optimizer = Some (optimizer_state_dict env (world (proc st))),
            ck_configs = option_dict,
            ck_token_to_id = token_to_id env,
            ck_id_to_token = id_to_token env,
            ck_network = Some (opt_network opts),
            ck_scheduler = None,
            ck_scheduler_name = None\<rparr>
         in case save_checkpoint ckpt (opt_prefix opts) (files st) of
              Inl e \<Rightarrow> Inl e
            | Inr fs \<Rightarrow>
                Inr (st\<lparr>files := fs,
                       saved := saved st @ [ckpt],
                       best_sentence_acc :=
                         0.9 * validation_epoch_sentence_accuracy
                           + 0.1 * (1 - validation_epoch_wer)\<rparr>))
      else Inr st)"

text \<open>The block under \<^verbatim>\<open># Summary\<close>: \<^verbatim>\<open>epoch % options.print_epochs\<close> is evaluated
  first and raises on a cadence of zero.\<close>

definition summary_block ::
  "options \<Rightarrow> int \<Rightarrow> int \<Rightarrow> nat \<Rightarrow> 'w main_state \<Rightarrow> error + 'w main_state" where
  "summary_block opts print_epochs start_epoch epoch st =
     (if print_epochs = 0 then Inl ZeroDivisionError
      else if int epoch mod print_epochs = 0 \<or> int epoch = opt_num_epochs opts - 1
      then Inr (st\<lparr>summaries := summaries st @ [start_epoch + int epoch + 1]\<rparr>)
      else Inr st)"

text \<open>
  The body of \<^verbatim>\<open>for epoch in range(options.num_epochs)\<close>. The loaders yield the batches
  of the given epoch. \<^verbatim>\<open>final_metric\<close> is called on both splits for the telemetry only.
\<close>

definition main_epoch ::
  "('w, 'img, 'out) env \<Rightarrow> options \<Rightarrow> (string \<times> string) list \<Rightarrow> scheduler option \<Rightarrow> int \<Rightarrow> int
     \<Rightarrow> (nat \<Rightarrow> 'img batch list) \<Rightarrow> (nat \<Rightarrow> 'img batch list)
     \<Rightarrow> 'w main_state \<Rightarrow> nat \<Rightarrow> error + 'w main_state" where
  "main_epoch env opts option_dict lr_scheduler start_epoch print_epochs
       train_data_loader validation_data_loader st epoch =
     (case lr_scheduler of
        None \<Rightarrow> Inl UnboundLocalError
      | Some _ \<Rightarrow>
     (case train_one_epoch env (train_data_loader epoch) (opt_teacher_forcing_ratio opts)
             (opt_max_grad_norm opts) (proc st) of
        Inl e \<Rightarrow> Inl e
      | Inr tr \<Rightarrow>
     (case train_block (st\<lparr>proc := snd tr\<rparr>) (fst tr) of
        Inl e \<Rightarrow> Inl e
      | Inr st1 \<Rightarrow>
     (let epoch_lr = get_lr env (world (proc st1))
      in case valid_one_epoch env (validation_data_loader epoch)
                (opt_teacher_forcing_ratio opts) (proc st1) of
           Inl e \<Rightarrow> Inl e
         | Inr vr \<Rightarrow>
     (case validation_block (st1\<lparr>proc := snd vr\<rparr>) (fst vr) of
        Inl e \<Rightarrow> Inl e
      | Inr (st2, validation_epoch_sentence_accuracy, validation_epoch_wer) \<Rightarrow>
     (case save_block env opts option_dict start_epoch epoch epoch_lr
             validation_epoch_sentence_accuracy validation_epoch_wer st2 of
        Inl e \<Rightarrow> Inl e
      | Inr st3 \<Rightarrow> summary_block opts print_epochs start_epoch epoch st3))))))"

text \<open>The epoch loop, from the state \<^verbatim>\<open>main\<close> has set up out of the checkpoint.\<close>

definition main_loop ::
  "('w, 'img, 'out) env \<Rightarrow> options \<Rightarrow> (string \<times> string) list \<Rightarrow> scheduler option
     \<Rightarrow> (nat \<Rightarrow> 'img batch list) \<Rightarrow> (nat \<Rightarrow> 'img batch list)
     \<Rightarrow> checkpoint \<Rightarrow> 'w proc \<Rightarrow> (string \<rightharpoonup> checkpoint) \<Rightarrow> nat \<Rightarrow> error + 'w main_state" where
  "main_loop env opts option_dict lr_scheduler train_data_loader validation_data_loader
       checkpoint p fs n =
     for_batches
       (main_epoch env opts option_dict lr_scheduler (ck_epoch checkpoint)
          (case opt_print_epochs opts of None \<Rightarrow> opt_num_epochs opts | Some k \<Rightarrow> k)
          train_data_loader validation_data_loader)
       (main_init checkpoint p fs) [0..<n]"

text \<open>
  \<^verbatim>\<open>main\<close>: checkpoint, optimiser and schedule, then the loop over
  \<^verbatim>\<open>range(options.num_epochs)\<close>. \<open>p\<close> is the process once network and criterion
  are built, and \<open>len_train\<close> is \<^verbatim>\<open>len(train_data_loader)\<close>.
\<close>

definition main ::
  "('w, 'img, 'out) env \<Rightarrow> (string \<Rightarrow> real \<Rightarrow> real \<Rightarrow> error + optimizer)
     \<Rightarrow> (scheduler \<Rightarrow> optimizer \<Rightarrow> optimizer) \<Rightarrow> options
     \<Rightarrow> (string \<times> string) list \<Rightarrow> bool \<Rightarrow> int
     \<Rightarrow> (nat \<Rightarrow> 'img batch list) \<Rightarrow> (nat \<Rightarrow> 'img batch list)
     \<Rightarrow> 'w proc \<Rightarrow> (string \<rightharpoonup> checkpoint) \<Rightarrow> error + 'w main_state" where
  "main env get_optimizer ctor opts option_dict is_cuda len_train
       train_data_loader validation_data_loader p fs =
     (case select_checkpoint opts fs is_cuda of
        Inl e \<Rightarrow> Inl e
      | Inr checkpoint \<Rightarrow>
     (case report_checkpoint checkpoint of
        Inl e \<Rightarrow> Inl e
      | Inr _ \<Rightarrow>
     (case build_optimizer get_optimizer opts checkpoint of
        Inl e \<Rightarrow> Inl e
      | Inr optimizer \<Rightarrow>
     (case build_scheduler ctor opts len_train optimizer of
        Inl e \<Rightarrow> Inl e
      | Inr (optimizer', lr_scheduler) \<Rightarrow>
          main_loop env opts option_dict lr_scheduler train_data_loader validation_data_loader
            checkpoint (emit env ModelTrain p) fs (nat (opt_num_epochs opts))))))"

subsection \<open>Vocabulary of the statements\<close>

text \<open>The reference tensor as the network receives it: \<open>-1\<close> replaced by the pad id.\<close>

definition fed :: "('w, 'img, 'out) env \<Rightarrow> 'img batch \<Rightarrow> tensor2" where
  "fed env d = masked_fill (- 1) (pad_id env) (encoded d)"

text \<open>\<open>b\<close> holds the four values the metric block computes for batch \<open>d\<close> when the
  network runs it in some state of the world.\<close>

definition scored ::
  "('w, 'img, 'out) env \<Rightarrow> bool \<Rightarrow> real \<Rightarrow> batch_score \<Rightarrow> 'img batch \<Rightarrow> bool" where
  "scored env train tf b d \<longleftrightarrow>
     (\<exists>w. batch_scores env (fed env d)
             (topk1 env (model env w (image d) (fed env d) train tf)) = Inr b)"

text \<open>The accumulators \<open>a'\<close> are \<open>a\<close> plus the batch values \<open>bs\<close>.\<close>

definition adds :: "pass_acc \<Rightarrow> pass_acc \<Rightarrow> batch_score list \<Rightarrow> bool" where
  "adds a a' bs \<longleftrightarrow>
     wer a' = wer a + sum_list (map b_wer bs)
   \<and> num_wer a' = num_wer a + int (length bs)
   \<and> sent_acc a' = sent_acc a + sum_list (map b_sent_acc bs)
   \<and> num_sent_acc a' = num_sent_acc a + int (length bs)
   \<and> correct_symbols a' = correct_symbols a + sum_list (map b_correct bs)
   \<and> total_symbols a' = total_symbols a + sum_list (map b_total bs)
   \<and> length (losses a') = length (losses a) + length bs"

text \<open>The reference tensor of a batch once the pad id has been put back to \<open>-1\<close>, and
  the prediction the network makes for the batch in a world \<open>w\<close>.\<close>

definition restored :: "('w, 'img, 'out) env \<Rightarrow> 'img batch \<Rightarrow> tensor2" where
  "restored env d = masked_fill (pad_id env) (- 1) (fed env d)"

definition predicted ::
  "('w, 'img, 'out) env \<Rightarrow> 'w \<Rightarrow> bool \<Rightarrow> real \<Rightarrow> 'img batch \<Rightarrow> tensor2" where
  "predicted env w train tf d = topk1 env (model env w (image d) (fed env d) train tf)"

text \<open>The two ways of averaging over an epoch: all correct symbols over all counted
  symbols, and the plain mean of one value per batch.\<close>

definition sample_weighted :: "batch_score list \<Rightarrow> real" where
  "sample_weighted bs =
     real_of_int (sum_list (map b_correct bs)) / real_of_int (sum_list (map b_total bs))"

definition batch_mean :: "(batch_score \<Rightarrow> real) \<Rightarrow> batch_score list \<Rightarrow> real" where
  "batch_mean f bs = sum_list (map f bs) / real (length bs)"

text \<open>The calls of one training batch, given the gradient mode, the tensor fed to the
  network and the loss.\<close>

definition train_ops :: "real \<Rightarrow> real \<Rightarrow> bool \<Rightarrow> tensor2 \<times> real \<Rightarrow> event list" where
  "train_ops tf mgn g c =
     [ModelCall (fst c) True tf g, ZeroGrad, ScaleLoss (snd c), Backward, Unscale,
      ClipGradNorm mgn, ScalerStep, ScalerUpdate, SchedulerStep]"

text \<open>The validation composite scores of the epochs a run has completed: one per entry
  that the run has added to the validation histories loaded from the checkpoint.\<close>

definition epoch_scores :: "checkpoint \<Rightarrow> 'w main_state \<Rightarrow> real list" where
  "epoch_scores checkpoint st =
     map2 (\<lambda>sa w. 0.9 * sa + 0.1 * (1 - w))
       (drop (length (ck_validation_sentence_accuracy checkpoint))
          (validation_sentence_accuracy st))
       (drop (length (ck_validation_wer checkpoint)) (validation_wer st))"

text \<open>The indices at which a score strictly exceeds both zero and every earlier score.\<close>

definition improved_at :: "real list \<Rightarrow> nat list" where
  "improved_at scores =
     filter (\<lambda>i. Max (insert 0 (set (take i scores))) < scores ! i) [0..<length scores]"

subsection \<open>A small environment to run the definitions on\<close>

text \<open>
  The world counts the optimiser steps taken through the scaler. The toy network
  reproduces the shifted reference on the first rows of a batch and is off by one on
  every symbol of the others; how many rows it gets right is bounded by its skill at
  the current step count and by the batch's image, a number. Sentences are rendered
  symbol by symbol without start marker and padding; the two sentence metrics are the
  fractions of matching and of differing sentences.
\<close>

definition toy_skill :: "nat \<Rightarrow> nat" where
  "toy_skill w = (if w < 6 then [0, 5, 4, 6, 6, 7] ! w else 0)"

definition toy_model :: "nat \<Rightarrow> nat \<Rightarrow> tensor2 \<Rightarrow> bool \<Rightarrow> real \<Rightarrow> tensor2" where
  "toy_model w img expected train tf =
     (let t = shift1 expected; k = min (toy_skill w) img
      in take k t @ map (map (\<lambda>x. x + 1)) (drop k t))"

definition toy_id_to_string :: "bool \<Rightarrow> tensor2 \<Rightarrow> string list" where
  "toy_id_to_string do_eval t =
     map (\<lambda>row. map (\<lambda>x. if x = 2 then CHR ''x'' else CHR ''y'') (filter (\<lambda>x. 1 < x) row)) t"

definition toy_sentence_acc :: "string list \<Rightarrow> string list \<Rightarrow> real" where
  "toy_sentence_acc p r =
     real (length (filter (\<lambda>(x, y). x = y) (zip p r))) / real (length r)"

definition toy_word_error_rate :: "string list \<Rightarrow> string list \<Rightarrow> real" where
  "toy_word_error_rate p r =
     real (length (filter (\<lambda>(x, y). x \<noteq> y) (zip p r))) / real (length r)"

definition toy_env :: "(nat, nat, tensor2) env" where
  "toy_env =
     \<lparr>pad_id = 0,
      model = toy_model,
      topk1 = (\<lambda>out. out),
      criterion = (\<lambda>out t. 1),
      clip_grad_norm = (\<lambda>w m. 1),
      get_lr = (\<lambda>w. [real w / 10]),
      id_to_string = toy_id_to_string,
      word_error_rate = toy_word_error_rate,
      sentence_acc = toy_sentence_acc,
      effect = (\<lambda>e w. if e = ScalerStep then Suc w else w),
      model_state_dict = (\<lambda>w. [(''weight'', \<lparr>device = Cpu, payload = [real w]\<rparr>)]),
      optimizer_state_dict =
        (\<lambda>w. \<lparr>param_groups = [\<lparr>pg_lr = real w / 10, pg_weight_decay = 0,
                                 pg_initial_lr = None\<rparr>],
               buffers = []\<rparr>),
      token_to_id = [(''PAD'', 0), (''SOS'', 1), (''x'', 2), (''y'', 3)],
      id_to_token = [(0, ''PAD''), (1, ''SOS''), (2, ''x''), (3, ''y'')]\<rparr>"

definition toy_options :: options where
  "toy_options =
     \<lparr>opt_network = ''SATRN'',
      opt_checkpoint = [],
      opt_scheduler = ''CustomCosine'',
      opt_optimizer = ''Adam'',
      opt_lr = 1 / 2,
      opt_weight_decay = 0,
      opt_lr_epochs = 1,
      opt_lr_factor = 1,
      opt_num_epochs = 5,
      opt_print_epochs = None,
      opt_prefix = ''log'',
      opt_teacher_forcing_ratio = 1 / 2,
      opt_max_grad_norm = 2,
      opt_others = []\<rparr>"

definition toy_proc :: "nat proc" where
  "toy_proc = \<lparr>world = 0, grad_enabled = True, events = []\<rparr>"

text \<open>One training batch of one sentence; one validation batch of ten sentences.\<close>

definition toy_train_loader :: "nat \<Rightarrow> nat batch list" where
  "toy_train_loader epoch = [\<lparr>image = 1, encoded = [[1, 2, - 1]]\<rparr>]"

definition toy_valid_loader :: "nat \<Rightarrow> nat batch list" where
  "toy_valid_loader epoch =
     [\<lparr>image = 10,
       encoded = [[1, 2], [1, 2], [1, 2], [1, 2], [1, 2], [1, 2], [1, 2], [1, 2], [1, 2], [1, 2]]\<rparr>]"

text \<open>Two validation batches of unequal size: one legible sentence, then three
  sentences the network cannot read.\<close>

definition uneven_valid_loader :: "nat \<Rightarrow> nat batch list" where
  "uneven_valid_loader epoch =
     [\<lparr>image = 1, encoded = [[1, 2]]\<rparr>, \<lparr>image = 0, encoded = [[1, 2], [1, 2], [1, 2]]\<rparr>]"

text \<open>A validation batch whose references hold the start marker only.\<close>

definition blank_valid_loader :: "nat \<Rightarrow> nat batch list" where
  "blank_valid_loader epoch = [\<lparr>image = 1, encoded = [[1], [1]]\<rparr>]"

text \<open>A checkpoint as a run on an accelerator leaves it after its first epoch, and
  options that resume from it.\<close>

definition resumed_checkpoint :: checkpoint where
  "resumed_checkpoint =
     \<lparr>ck_epoch = 1,
      ck_train_losses = [1],
      ck_train_symbol_accuracy = [0],
      ck_train_sentence_accuracy = [0],
      ck_train_wer = [1],
      ck_validation_losses = [1],
      ck_validation_symbol_accuracy = [1 / 2],
      ck_validation_sentence_accuracy = [1 / 2],
      ck_validation_wer = [1 / 2],
      ck_lr = [1 / 10],
      ck_grad_norm = [1],
      ck_model = [(''weight'', \<lparr>device = Cuda 0, payload = [1]\<rparr>)],
      ck_optimizer =
        Some \<lparr>param_groups = [\<lparr>pg_lr = 1 / 10, pg_weight_decay = 0, pg_initial_lr = None\<rparr>],
              buffers = [(''exp_avg'', \<lparr>device = Cuda 0, payload = [0]\<rparr>)]\<rparr>,
      ck_configs = [],
      ck_token_to_id = [(''PAD'', 0), (''SOS'', 1), (''x'', 2), (''y'', 3)],
      ck_id_to_token = [(0, ''PAD''), (1, ''SOS''), (2, ''x''), (3, ''y'')],
      ck_network = Some ''SATRN'',
      ck_scheduler = None,
      ck_scheduler_name = None\<rparr>"

definition resume_options :: options where
  "resume_options = toy_options\<lparr>opt_checkpoint := ''log/checkpoints/SATRN_best_model.pth''\<rparr>"

text \<open>An optimiser factory with one parameter group.\<close>

definition toy_get_optimizer :: "string \<Rightarrow> real \<Rightarrow> real \<Rightarrow> error + optimizer" where
  "toy_get_optimizer name lr weight_decay =
     (if name = ''Adam'' \<or> name = ''Adadelta''
      then Inr \<lparr>param_groups = [\<lparr>pg_lr = lr, pg_weight_decay = weight_decay,
                                 pg_initial_lr = None\<rparr>],
                buffers = []\<rparr>
      else Inl NotImplementedError)"

section \<open>Properties\<close>

subsection \<open>The trace and the accumulators of a pass\<close>

lemma events_emit: "events (emit env e p) = events p @ [e]"
  by (simp add: emit_def)

lemma grad_enabled_emit: "grad_enabled (emit env e p) = grad_enabled p"
  by (simp add: emit_def)

lemma for_batches_append:
  "for_batches body s (xs @ ys) =
     (case for_batches body s xs of Inl e \<Rightarrow> Inl e | Inr s' \<Rightarrow> for_batches body s' ys)"
  by (induction xs arbitrary: s) (auto split: sum.splits)

lemma batch_metrics_Inr:
  assumes "batch_metrics env expected sequence a = Inr a'"
  shows "\<exists>b. batch_scores env expected sequence = Inr b
           \<and> a' = a\<lparr>wer := wer a + b_wer b, num_wer := num_wer a + 1,
                     sent_acc := sent_acc a + b_sent_acc b, num_sent_acc := num_sent_acc a + 1,
                     correct_symbols := correct_symbols a + b_correct b,
                     total_symbols := total_symbols a + b_total b\<rparr>"
  using assms by (auto simp: batch_metrics_def split: sum.splits)

lemma train_batch_Inr:
  assumes "train_batch env tf mgn s d = Inr s'"
  shows "\<exists>l. events (fst s') = events (fst s) @ train_ops tf mgn (grad_enabled (fst s)) (fed env d, l)"
    and "grad_enabled (fst s') = grad_enabled (fst s)"
    and "\<exists>b. scored env True tf b d
           \<and> wer (snd s') = wer (snd s) + b_wer b
           \<and> num_wer (snd s') = num_wer (snd s) + 1
           \<and> sent_acc (snd s') = sent_acc (snd s) + b_sent_acc b
           \<and> num_sent_acc (snd s') = num_sent_acc (snd s) + 1
           \<and> correct_symbols (snd s') = correct_symbols (snd s) + b_correct b
           \<and> total_symbols (snd s') = total_symbols (snd s) + b_total b
           \<and> length (losses (snd s')) = length (losses (snd s)) + 1
           \<and> length (grad_norms (snd s')) = length (grad_norms (snd s)) + 1"
proof -
  show "\<exists>l. events (fst s') = events (fst s) @ train_ops tf mgn (grad_enabled (fst s)) (fed env d, l)"
    using assms
    by (auto simp: train_batch_def Let_def events_emit grad_enabled_emit train_ops_def fed_def
        split: sum.splits)
  show "grad_enabled (fst s') = grad_enabled (fst s)"
    using assms
    by (auto simp: train_batch_def Let_def grad_enabled_emit split: sum.splits)
  show "\<exists>b. scored env True tf b d
           \<and> wer (snd s') = wer (snd s) + b_wer b
           \<and> num_wer (snd s') = num_wer (snd s) + 1
           \<and> sent_acc (snd s') = sent_acc (snd s) + b_sent_acc b
           \<and> num_sent_acc (snd s') = num_sent_acc (snd s) + 1
           \<and> correct_symbols (snd s') = correct_symbols (snd s) + b_correct b
           \<and> total_symbols (snd s') = total_symbols (snd s) + b_total b
           \<and> length (losses (snd s')) = length (losses (snd s)) + 1
           \<and> length (grad_norms (snd s')) = length (grad_norms (snd s)) + 1"
    using assms
    by (auto simp: train_batch_def Let_def scored_def fed_def split: sum.splits
        dest!: batch_metrics_Inr)
qed


lemma valid_batch_Inr:
  assumes "valid_batch env tf s d = Inr s'"
  shows "events (fst s') = events (fst s) @ [ModelCall (fed env d) False tf (grad_enabled (fst s))]"
    and "grad_enabled (fst s') = grad_enabled (fst s)"
    and "\<exists>b. scored env False tf b d
           \<and> wer (snd s') = wer (snd s) + b_wer b
           \<and> num_wer (snd s') = num_wer (snd s) + 1
           \<and> sent_acc (snd s') = sent_acc (snd s) + b_sent_acc b
           \<and> num_sent_acc (snd s') = num_sent_acc (snd s) + 1
           \<and> correct_symbols (snd s') = correct_symbols (snd s) + b_correct b
           \<and> total_symbols (snd s') = total_symbols (snd s) + b_total b
           \<and> length (losses (snd s')) = length (losses (snd s)) + 1
           \<and> length (grad_norms (snd s')) = length (grad_norms (snd s))"
proof -
  show "events (fst s') = events (fst s) @ [ModelCall (fed env d) False tf (grad_enabled (fst s))]"
    using assms
    by (auto simp: valid_batch_def Let_def events_emit fed_def split: sum.splits)
  show "grad_enabled (fst s') = grad_enabled (fst s)"
    using assms
    by (auto simp: valid_batch_def Let_def grad_enabled_emit split: sum.splits)
  show "\<exists>b. scored env False tf b d
           \<and> wer (snd s') = wer (snd s) + b_wer b
           \<and> num_wer (snd s') = num_wer (snd s) + 1
           \<and> sent_acc (snd s') = sent_acc (snd s) + b_sent_acc b
           \<and> num_sent_acc (snd s') = num_sent_acc (snd s) + 1
           \<and> correct_symbols (snd s') = correct_symbols (snd s) + b_correct b
           \<and> total_symbols (snd s') = total_symbols (snd s) + b_total b
           \<and> length (losses (snd s')) = length (losses (snd s)) + 1
           \<and> length (grad_norms (snd s')) = length (grad_norms (snd s))"
    using assms
    by (auto simp: valid_batch_def Let_def scored_def fed_def split: sum.splits
        dest!: batch_metrics_Inr)
qed

lemma train_loop_events:
  "for_batches (train_batch env tf mgn) s ds = Inr s' \<Longrightarrow>
   grad_enabled (fst s') = grad_enabled (fst s) \<and>
   (\<exists>ls. length ls = length ds \<and>
      events (fst s') = events (fst s)
        @ concat (map (train_ops tf mgn (grad_enabled (fst s))) (zip (map (fed env) ds) ls)))"
proof (induction ds arbitrary: s)
  case Nil
  then show ?case by simp
next
  case (Cons d ds)
  from Cons.prems obtain s1 where s1: "train_batch env tf mgn s d = Inr s1"
    and rest: "for_batches (train_batch env tf mgn) s1 ds = Inr s'"
    by (auto split: sum.splits)
  from train_batch_Inr(1)[OF s1] obtain l where
    l: "events (fst s1) = events (fst s) @ train_ops tf mgn (grad_enabled (fst s)) (fed env d, l)"
    by blast
  have g: "grad_enabled (fst s1) = grad_enabled (fst s)" by (rule train_batch_Inr(2)[OF s1])
  from Cons.IH[OF rest] g obtain ls where ls: "length ls = length ds"
    "events (fst s') = events (fst s1)
        @ concat (map (train_ops tf mgn (grad_enabled (fst s))) (zip (map (fed env) ds) ls))"
    and g': "grad_enabled (fst s') = grad_enabled (fst s)"
    by auto
  have "length (l # ls) = length (d # ds)" using ls by simp
  moreover have "events (fst s') = events (fst s)
        @ concat (map (train_ops tf mgn (grad_enabled (fst s))) (zip (map (fed env) (d # ds)) (l # ls)))"
    using ls l by simp
  ultimately show ?case using g' by blast
qed

lemma train_loop_adds:
  "for_batches (train_batch env tf mgn) s ds = Inr s' \<Longrightarrow>
   \<exists>bs. list_all2 (scored env True tf) bs ds \<and> adds (snd s) (snd s') bs
     \<and> length (grad_norms (snd s')) = length (grad_norms (snd s)) + length ds"
proof (induction ds arbitrary: s)
  case Nil
  then show ?case by (simp add: adds_def)
next
  case (Cons d ds)
  from Cons.prems obtain s1 where s1: "train_batch env tf mgn s d = Inr s1"
    and rest: "for_batches (train_batch env tf mgn) s1 ds = Inr s'"
    by (auto split: sum.splits)
  from train_batch_Inr(3)[OF s1] obtain b where b: "scored env True tf b d"
    "wer (snd s1) = wer (snd s) + b_wer b"
    "num_wer (snd s1) = num_wer (snd s) + 1"
    "sent_acc (snd s1) = sent_acc (snd s) + b_sent_acc b"
    "num_sent_acc (snd s1) = num_sent_acc (snd s) + 1"
    "correct_symbols (snd s1) = correct_symbols (snd s) + b_correct b"
    "total_symbols (snd s1) = total_symbols (snd s) + b_total b"
    "length (losses (snd s1)) = length (losses (snd s)) + 1"
    "length (grad_norms (snd s1)) = length (grad_norms (snd s)) + 1"
    by blast
  from Cons.IH[OF rest] obtain bs where bs: "list_all2 (scored env True tf) bs ds"
    "adds (snd s1) (snd s') bs"
    "length (grad_norms (snd s')) = length (grad_norms (snd s1)) + length ds"
    by blast
  have "list_all2 (scored env True tf) (b # bs) (d # ds)" using b(1) bs(1) by simp
  moreover have "adds (snd s) (snd s') (b # bs)"
    using bs(2) b(2-8) by (simp add: adds_def)
  moreover have "length (grad_norms (snd s')) = length (grad_norms (snd s)) + length (d # ds)"
    using bs(3) b(9) by simp
  ultimately show ?case by blast
qed

lemma valid_loop_events:
  "for_batches (valid_batch env tf) s ds = Inr s' \<Longrightarrow>
   grad_enabled (fst s') = grad_enabled (fst s) \<and>
   events (fst s') = events (fst s)
        @ map (\<lambda>d. ModelCall (fed env d) False tf (grad_enabled (fst s))) ds"
proof (induction ds arbitrary: s)
  case Nil
  then show ?case by simp
next
  case (Cons d ds)
  from Cons.prems obtain s1 where s1: "valid_batch env tf s d = Inr s1"
    and rest: "for_batches (valid_batch env tf) s1 ds = Inr s'"
    by (auto split: sum.splits)
  show ?case
    using Cons.IH[OF rest] valid_batch_Inr(1,2)[OF s1] by simp
qed

lemma valid_loop_adds:
  "for_batches (valid_batch env tf) s ds = Inr s' \<Longrightarrow>
   \<exists>bs. list_all2 (scored env False tf) bs ds \<and> adds (snd s) (snd s') bs"
proof (induction ds arbitrary: s)
  case Nil
  then show ?case by (simp add: adds_def)
next
  case (Cons d ds)
  from Cons.prems obtain s1 where s1: "valid_batch env tf s d = Inr s1"
    and rest: "for_batches (valid_batch env tf) s1 ds = Inr s'"
    by (auto split: sum.splits)
  from valid_batch_Inr(3)[OF s1] obtain b where b: "scored env False tf b d"
    "wer (snd s1) = wer (snd s) + b_wer b"
    "num_wer (snd s1) = num_wer (snd s) + 1"
    "sent_acc (snd s1) = sent_acc (snd s) + b_sent_acc b"
    "num_sent_acc (snd s1) = num_sent_acc (snd s) + 1"
    "correct_symbols (snd s1) = correct_symbols (snd s) + b_correct b"
    "total_symbols (snd s1) = total_symbols (snd s) + b_total b"
    "length (losses (snd s1)) = length (losses (snd s)) + 1"
    by blast
  from Cons.IH[OF rest] obtain bs where bs: "list_all2 (scored env False tf) bs ds"
    "adds (snd s1) (snd s') bs"
    by blast
  have "list_all2 (scored env False tf) (b # bs) (d # ds)" using b(1) bs(1) by simp
  moreover have "adds (snd s) (snd s') (b # bs)"
    using bs(2) b(2-8) by (simp add: adds_def)
  ultimately show ?case by blast
qed


subsection \<open>What a returning pass and a returning epoch have done\<close>

lemma train_one_epoch_Inr:
  assumes "train_one_epoch env ds tf mgn p = Inr rp"
  shows "ds \<noteq> []"
    and "grad_enabled (snd rp)"
    and "\<exists>ls. length ls = length ds \<and>
           events (snd rp) = events p @ [SetGradEnabled True, ModelTrain]
             @ concat (map (train_ops tf mgn True) (zip (map (fed env) ds) ls))"
    and "\<exists>bs a. list_all2 (scored env True tf) bs ds \<and> adds pass_acc_init a bs
           \<and> length (grad_norms a) = length ds
           \<and> fst rp = result_of a (Some (np_mean (grad_norms a)))"
proof -
  let ?p1 = "emit env ModelTrain (set_grad_enabled env True p)"
  from assms obtain s where s: "for_batches (train_batch env tf mgn) (?p1, pass_acc_init) ds = Inr s"
    and ne: "ds \<noteq> []"
    and rp: "rp = (result_of (snd s) (Some (np_mean (grad_norms (snd s)))), fst s)"
    by (auto simp: train_one_epoch_def Let_def split: sum.splits if_splits)
  have g1: "grad_enabled ?p1" by (simp add: grad_enabled_emit set_grad_enabled_def)
  have e1: "events ?p1 = events p @ [SetGradEnabled True, ModelTrain]"
    by (simp add: events_emit set_grad_enabled_def)
  show "ds \<noteq> []" by (rule ne)
  show "grad_enabled (snd rp)" using train_loop_events[OF s] g1 rp by simp
  show "\<exists>ls. length ls = length ds \<and>
           events (snd rp) = events p @ [SetGradEnabled True, ModelTrain]
             @ concat (map (train_ops tf mgn True) (zip (map (fed env) ds) ls))"
    using train_loop_events[OF s] g1 e1 rp by auto
  from train_loop_adds[OF s] obtain bs where "list_all2 (scored env True tf) bs ds"
    "adds pass_acc_init (snd s) bs" "length (grad_norms (snd s)) = length ds"
    by (auto simp: pass_acc_init_def)
  then show "\<exists>bs a. list_all2 (scored env True tf) bs ds \<and> adds pass_acc_init a bs
           \<and> length (grad_norms a) = length ds
           \<and> fst rp = result_of a (Some (np_mean (grad_norms a)))"
    using rp by auto
qed

lemma valid_one_epoch_Inr:
  assumes "valid_one_epoch env ds tf p = Inr rp"
  shows "ds \<noteq> []"
    and "grad_enabled (snd rp) = grad_enabled p"
    and "events (snd rp) = events p @ ModelEval
             # map (\<lambda>d. ModelCall (fed env d) False tf (grad_enabled p)) ds"
    and "\<exists>bs a. list_all2 (scored env False tf) bs ds \<and> adds pass_acc_init a bs
           \<and> fst rp = result_of a None"
proof -
  let ?p1 = "emit env ModelEval p"
  from assms obtain s where s: "for_batches (valid_batch env tf) (?p1, pass_acc_init) ds = Inr s"
    and ne: "ds \<noteq> []"
    and rp: "rp = (result_of (snd s) None, fst s)"
    by (auto simp: valid_one_epoch_def Let_def split: sum.splits if_splits)
  show "ds \<noteq> []" by (rule ne)
  show "grad_enabled (snd rp) = grad_enabled p"
    using valid_loop_events[OF s] rp by (simp add: grad_enabled_emit)
  show "events (snd rp) = events p @ ModelEval
             # map (\<lambda>d. ModelCall (fed env d) False tf (grad_enabled p)) ds"
    using valid_loop_events[OF s] rp by (simp add: grad_enabled_emit events_emit)
  from valid_loop_adds[OF s] obtain bs where "list_all2 (scored env False tf) bs ds"
    "adds pass_acc_init (snd s) bs"
    by auto
  then show "\<exists>bs a. list_all2 (scored env False tf) bs ds \<and> adds pass_acc_init a bs
           \<and> fst rp = result_of a None"
    using rp by auto
qed

lemma main_epoch_Inr:
  assumes "main_epoch env opts od sch se pe trl vl st epoch = Inr st'"
  obtains s tr st1 vr st2 vsa vwer st3 where
    "sch = Some s"
    "train_one_epoch env (trl epoch) (opt_teacher_forcing_ratio opts) (opt_max_grad_norm opts)
       (proc st) = Inr tr"
    "train_block (st\<lparr>proc := snd tr\<rparr>) (fst tr) = Inr st1"
    "valid_one_epoch env (vl epoch) (opt_teacher_forcing_ratio opts) (proc st1) = Inr vr"
    "validation_block (st1\<lparr>proc := snd vr\<rparr>) (fst vr) = Inr (st2, vsa, vwer)"
    "save_block env opts od se epoch (get_lr env (world (proc st1))) vsa vwer st2 = Inr st3"
    "summary_block opts pe se epoch st3 = Inr st'"
  using assms
  by (auto simp: main_epoch_def Let_def split: option.splits sum.splits prod.splits)

lemma train_block_Inr:
  assumes "train_block st r = Inr st1"
  shows "\<exists>g. res_grad_norm r = Some g \<and> res_total_symbols r \<noteq> 0 \<and> res_num_sent_acc r \<noteq> 0
           \<and> res_num_wer r \<noteq> 0 \<and>
           st1 = st\<lparr>train_losses := train_losses st @ [res_loss r],
                 epoch_grad_norms := epoch_grad_norms st @ [g],
                 train_symbol_accuracy := train_symbol_accuracy st
                    @ [real_of_int (res_correct_symbols r) / real_of_int (res_total_symbols r)],
                 train_sentence_accuracy := train_sentence_accuracy st
                    @ [res_sent_acc r / real_of_int (res_num_sent_acc r)],
                 train_wer := train_wer st @ [res_wer r / real_of_int (res_num_wer r)]\<rparr>"
  using assms
  by (auto simp: train_block_def int_truediv_def float_truediv_def
      split: option.splits sum.splits if_splits)

lemma validation_block_Inr:
  assumes "validation_block st r = Inr (st2, vsa, vwer)"
  shows "res_total_symbols r \<noteq> 0 \<and> res_num_sent_acc r \<noteq> 0 \<and> res_num_wer r \<noteq> 0
           \<and> vsa = res_sent_acc r / real_of_int (res_num_sent_acc r)
           \<and> vwer = res_wer r / real_of_int (res_num_wer r)
           \<and> st2 = st\<lparr>validation_losses := validation_losses st @ [res_loss r],
                 validation_symbol_accuracy := validation_symbol_accuracy st
                    @ [real_of_int (res_correct_symbols r) / real_of_int (res_total_symbols r)],
                 validation_sentence_accuracy := validation_sentence_accuracy st @ [vsa],
                 validation_wer := validation_wer st @ [vwer]\<rparr>"
  using assms
  by (auto simp: validation_block_def int_truediv_def float_truediv_def
      split: option.splits sum.splits if_splits)

lemma save_block_Inr:
  assumes "save_block env opts od se epoch lr vsa vwer st = Inr st'"
  shows "(best_sentence_acc st < 0.9 * vsa + 0.1 * (1 - vwer) \<longrightarrow>
            (\<exists>c fs. ck_epoch c = se + int epoch + 1 \<and> ck_lr c = lr \<and>
               st' = st\<lparr>files := fs, saved := saved st @ [c],
                        best_sentence_acc := 0.9 * vsa + 0.1 * (1 - vwer)\<rparr>))
       \<and> (\<not> best_sentence_acc st < 0.9 * vsa + 0.1 * (1 - vwer) \<longrightarrow> st' = st)"
proof (cases "best_sentence_acc st < 0.9 * vsa + 0.1 * (1 - vwer)")
  case False
  then show ?thesis using assms by (simp add: save_block_def)
next
  case True
  define c where "c =
           \<lparr>ck_epoch = se + int epoch + 1,
            ck_train_losses = train_losses st,
            ck_train_symbol_accuracy = train_symbol_accuracy st,
            ck_train_sentence_accuracy = train_sentence_accuracy st,
            ck_train_wer = train_wer st,
            ck_validation_losses = validation_losses st,
            ck_validation_symbol_accuracy = validation_symbol_accuracy st,
            ck_validation_sentence_accuracy = validation_sentence_accuracy st,
            ck_validation_wer = validation_wer st,
            ck_lr = lr,
            ck_grad_norm = epoch_grad_norms st,
            ck_model = model_state_dict env (world (proc st)),
            ck_optimizer = Some (optimizer_state_dict env (world (proc st))),
            ck_configs = od,
            ck_token_to_id = token_to_id env,
            ck_id_to_token = id_to_token env,
            ck_network = Some (opt_network opts),
            ck_scheduler = None,
            ck_scheduler_name = None\<rparr>"
  have c: "ck_epoch c = se + int epoch + 1" "ck_lr c = lr" by (simp_all add: c_def)
  from assms True obtain fs where
    "st' = st\<lparr>files := fs, saved := saved st @ [c],
              best_sentence_acc := 0.9 * vsa + 0.1 * (1 - vwer)\<rparr>"
    unfolding save_block_def Let_def c_def[symmetric]
    by (auto split: sum.splits)
  with c True show ?thesis by blast
qed

lemma summary_block_Inr:
  assumes "summary_block opts pe se epoch st = Inr st'"
  shows "\<exists>xs. st' = st\<lparr>summaries := summaries st @ xs\<rparr>"
proof -
  have "st' = st\<lparr>summaries := summaries st @ [se + int epoch + 1]\<rparr> \<or> st' = st"
    using assms by (auto simp: summary_block_def split: if_splits)
  then show ?thesis
  proof
    assume "st' = st\<lparr>summaries := summaries st @ [se + int epoch + 1]\<rparr>"
    then show ?thesis by blast
  next
    assume "st' = st"
    then have "st' = st\<lparr>summaries := summaries st @ []\<rparr>" by simp
    then show ?thesis by blast
  qed
qed


subsection \<open>Evaluating the toy run\<close>

lemmas toy_defs =
  train_one_epoch_def valid_one_epoch_def toy_train_loader_def toy_valid_loader_def
  uneven_valid_loader_def blank_valid_loader_def toy_proc_def toy_env_def toy_options_def
  train_batch_def valid_batch_def batch_metrics_def batch_scores_def emit_def
  set_grad_enabled_def masked_fill_def shift1_def count_equal_def count_differs_def
  same_shape_def toy_model_def toy_skill_def toy_id_to_string_def toy_sentence_acc_def
  toy_word_error_rate_def pass_acc_init_def result_of_def np_mean_def Let_def

lemma toy_train_run:
  "train_one_epoch toy_env (toy_train_loader 0) (1 / 2) 2 toy_proc
     = Inr (\<lparr>res_loss = 1, res_correct_symbols = 0, res_total_symbols = 1, res_wer = 1,
              res_num_wer = 1, res_sent_acc = 0, res_num_sent_acc = 1, res_grad_norm = Some 1\<rparr>,
            \<lparr>world = 1, grad_enabled = True,
              events = [SetGradEnabled True, ModelTrain, ModelCall [[1, 2, 0]] True (1 / 2) True,
                        ZeroGrad, ScaleLoss 1, Backward, Unscale, ClipGradNorm 2, ScalerStep,
                        ScalerUpdate, SchedulerStep]\<rparr>)"
  by (simp add: toy_defs)

lemmas main_defs =
  main_epoch_def main_init_def default_checkpoint_def train_block_def validation_block_def
  save_block_def summary_block_def save_checkpoint_def path_join_def int_truediv_def
  float_truediv_def

lemma toy_epoch_run:
  "\<exists>st'. main_epoch toy_env toy_options [] (Some (StepLR 1 1)) 0 5 toy_train_loader
           toy_valid_loader (main_init default_checkpoint toy_proc Map.empty) 0 = Inr st'"
  by (simp add: main_defs toy_defs)

lemma blank_train_run:
  "train_one_epoch toy_env (toy_train_loader 0) (opt_teacher_forcing_ratio toy_options)
     (opt_max_grad_norm toy_options) (proc (main_init default_checkpoint toy_proc Map.empty))
     = Inr (\<lparr>res_loss = 1, res_correct_symbols = 0, res_total_symbols = 1, res_wer = 1,
              res_num_wer = 1, res_sent_acc = 0, res_num_sent_acc = 1, res_grad_norm = Some 1\<rparr>,
            \<lparr>world = 1, grad_enabled = True,
              events = [SetGradEnabled True, ModelTrain, ModelCall [[1, 2, 0]] True (1 / 2) True,
                        ZeroGrad, ScaleLoss 1, Backward, Unscale, ClipGradNorm 2, ScalerStep,
                        ScalerUpdate, SchedulerStep]\<rparr>)"
  by (simp add: toy_defs main_init_def)

lemma blank_valid_run:
  "\<exists>st1 vr. train_block (main_init default_checkpoint toy_proc Map.empty
        \<lparr>proc := \<lparr>world = 1, grad_enabled = True,
              events = [SetGradEnabled True, ModelTrain, ModelCall [[1, 2, 0]] True (1 / 2) True,
                        ZeroGrad, ScaleLoss 1, Backward, Unscale, ClipGradNorm 2, ScalerStep,
                        ScalerUpdate, SchedulerStep]\<rparr>\<rparr>)
       \<lparr>res_loss = 1, res_correct_symbols = 0, res_total_symbols = 1, res_wer = 1,
              res_num_wer = 1, res_sent_acc = 0, res_num_sent_acc = 1, res_grad_norm = Some 1\<rparr>
        = Inr st1
     \<and> valid_one_epoch toy_env (blank_valid_loader 0) (opt_teacher_forcing_ratio toy_options)
          (proc st1) = Inr vr
     \<and> res_total_symbols (fst vr) = 0"
  by (simp add: toy_defs main_defs)

lemma main_loop_Suc:
  "main_loop env opts od sch trl vl ckpt p fs (Suc n) =
     (case main_loop env opts od sch trl vl ckpt p fs n of
        Inl e \<Rightarrow> Inl e
      | Inr st \<Rightarrow>
          main_epoch env opts od sch (ck_epoch ckpt)
            (case opt_print_epochs opts of None \<Rightarrow> opt_num_epochs opts | Some k \<Rightarrow> k)
            trl vl st n)"
  by (simp add: main_loop_def for_batches_append split: sum.splits)

lemma main_loop_0: "main_loop env opts od sch trl vl ckpt p fs 0 = Inr (main_init ckpt p fs)"
  by (simp add: main_loop_def)

lemma main_loop_fails_on:
  assumes "main_loop env opts od sch trl vl ckpt p fs k = Inl e" and "k \<le> n"
  shows "main_loop env opts od sch trl vl ckpt p fs n = Inl e"
  using assms(2,1)
  by (induction n rule: dec_induct) (simp_all add: main_loop_Suc)

lemma main_epoch_proc:
  assumes "main_epoch env opts od sch se pe trl vl st epoch = Inr st'"
  shows "\<exists>tr vr. train_one_epoch env (trl epoch) (opt_teacher_forcing_ratio opts)
                  (opt_max_grad_norm opts) (proc st) = Inr tr
           \<and> valid_one_epoch env (vl epoch) (opt_teacher_forcing_ratio opts) (snd tr) = Inr vr
           \<and> proc st' = snd vr"
proof -
  from assms obtain tr st1 vr st2 vsa vwer st3 where h:
    "train_one_epoch env (trl epoch) (opt_teacher_forcing_ratio opts) (opt_max_grad_norm opts)
       (proc st) = Inr tr"
    "train_block (st\<lparr>proc := snd tr\<rparr>) (fst tr) = Inr st1"
    "valid_one_epoch env (vl epoch) (opt_teacher_forcing_ratio opts) (proc st1) = Inr vr"
    "validation_block (st1\<lparr>proc := snd vr\<rparr>) (fst vr) = Inr (st2, vsa, vwer)"
    "save_block env opts od se epoch (get_lr env (world (proc st1))) vsa vwer st2 = Inr st3"
    "summary_block opts pe se epoch st3 = Inr st'"
    by (rule main_epoch_Inr)
  have p1: "proc st1 = snd tr" using train_block_Inr[OF h(2)] by auto
  have p2: "proc st2 = snd vr" using validation_block_Inr[OF h(4)] by auto
  have p3: "proc st3 = proc st2" using save_block_Inr[OF h(5)] by auto
  have p4: "proc st' = proc st3" using summary_block_Inr[OF h(6)] by auto
  have "valid_one_epoch env (vl epoch) (opt_teacher_forcing_ratio opts) (snd tr) = Inr vr"
    using h(3) p1 by simp
  moreover have "proc st' = snd vr" using p2 p3 p4 by simp
  ultimately show ?thesis using h(1) by blast
qed

lemma run_epoch_validation_disables_grad:
  assumes "run_epoch env ds tf mgn False p = Inr rp"
  shows "\<not> grad_enabled (snd rp) \<and>
         events (snd rp) = events p @ SetGradEnabled False # ModelEval
             # map (\<lambda>d. ModelCall (fed env d) False tf False) ds"
proof -
  let ?p1 = "emit env ModelEval (set_grad_enabled env False p)"
  have step: "run_batch env tf mgn False s d = Inr s' \<Longrightarrow>
      grad_enabled (fst s') = grad_enabled (fst s) \<and>
      events (fst s') = events (fst s) @ [ModelCall (fed env d) False tf (grad_enabled (fst s))]"
    for s s' d
    by (auto simp: run_batch_def Let_def events_emit grad_enabled_emit fed_def split: sum.splits)
  have loop: "for_batches (run_batch env tf mgn False) s xs = Inr s' \<Longrightarrow>
      grad_enabled (fst s') = grad_enabled (fst s) \<and>
      events (fst s') = events (fst s)
         @ map (\<lambda>d. ModelCall (fed env d) False tf (grad_enabled (fst s))) xs"
    for s s' xs
  proof (induction xs arbitrary: s)
    case Nil
    then show ?case by simp
  next
    case (Cons d xs)
    from Cons.prems obtain s1 where s1: "run_batch env tf mgn False s d = Inr s1"
      and rest: "for_batches (run_batch env tf mgn False) s1 xs = Inr s'"
      by (auto split: sum.splits)
    show ?case using Cons.IH[OF rest] step[OF s1] by simp
  qed
  from assms obtain s where s: "for_batches (run_batch env tf mgn False) (?p1, pass_acc_init) ds = Inr s"
    and rp: "snd rp = fst s"
    by (auto simp: run_epoch_def Let_def split: sum.splits if_splits)
  have g1: "\<not> grad_enabled ?p1" by (simp add: grad_enabled_emit set_grad_enabled_def)
  have e1: "events ?p1 = events p @ [SetGradEnabled False, ModelEval]"
    by (simp add: events_emit set_grad_enabled_def)
  show ?thesis using loop[OF s] g1 e1 rp by simp
qed

lemma masked_fill_free:
  assumes "a \<noteq> b" and "row \<in> set (masked_fill a b t)"
  shows "a \<notin> set row"
  using assms by (auto simp: masked_fill_def)

lemma masked_fill_twice:
  "masked_fill p (- 1) (masked_fill (- 1) p t) = masked_fill p (- 1) t"
  by (simp add: masked_fill_def)

lemma pass_result_sums:
  assumes "list_all2 P bs ds" and "adds pass_acc_init a bs" and "r = result_of a g"
  shows "res_wer r = sum_list (map b_wer bs) \<and> res_num_wer r = int (length ds)
       \<and> res_sent_acc r = sum_list (map b_sent_acc bs) \<and> res_num_sent_acc r = int (length ds)
       \<and> res_correct_symbols r = sum_list (map b_correct bs)
       \<and> res_total_symbols r = sum_list (map b_total bs)"
  using assms list_all2_lengthD[OF assms(1)]
  by (simp add: adds_def pass_acc_init_def result_of_def)

lemma epoch_histories:
  assumes "main_epoch env opts od sch se pe trl vl st epoch = Inr st'"
  shows "\<exists>tr vr g.
      train_one_epoch env (trl epoch) (opt_teacher_forcing_ratio opts) (opt_max_grad_norm opts)
        (proc st) = Inr tr
    \<and> valid_one_epoch env (vl epoch) (opt_teacher_forcing_ratio opts) (snd tr) = Inr vr
    \<and> train_losses st' = train_losses st @ [res_loss (fst tr)]
    \<and> epoch_grad_norms st' = epoch_grad_norms st @ [g]
    \<and> train_symbol_accuracy st' = train_symbol_accuracy st
         @ [real_of_int (res_correct_symbols (fst tr)) / real_of_int (res_total_symbols (fst tr))]
    \<and> train_sentence_accuracy st' = train_sentence_accuracy st
         @ [res_sent_acc (fst tr) / real_of_int (res_num_sent_acc (fst tr))]
    \<and> train_wer st' = train_wer st @ [res_wer (fst tr) / real_of_int (res_num_wer (fst tr))]
    \<and> validation_losses st' = validation_losses st @ [res_loss (fst vr)]
    \<and> validation_symbol_accuracy st' = validation_symbol_accuracy st
         @ [real_of_int (res_correct_symbols (fst vr)) / real_of_int (res_total_symbols (fst vr))]
    \<and> validation_sentence_accuracy st' = validation_sentence_accuracy st
         @ [res_sent_acc (fst vr) / real_of_int (res_num_sent_acc (fst vr))]
    \<and> validation_wer st' = validation_wer st
         @ [res_wer (fst vr) / real_of_int (res_num_wer (fst vr))]
    \<and> learning_rates st' = learning_rates st"
proof -
  from assms obtain tr st1 vr st2 vsa vwer st3 where h:
    "train_one_epoch env (trl epoch) (opt_teacher_forcing_ratio opts) (opt_max_grad_norm opts)
       (proc st) = Inr tr"
    "train_block (st\<lparr>proc := snd tr\<rparr>) (fst tr) = Inr st1"
    "valid_one_epoch env (vl epoch) (opt_teacher_forcing_ratio opts) (proc st1) = Inr vr"
    "validation_block (st1\<lparr>proc := snd vr\<rparr>) (fst vr) = Inr (st2, vsa, vwer)"
    "save_block env opts od se epoch (get_lr env (world (proc st1))) vsa vwer st2 = Inr st3"
    "summary_block opts pe se epoch st3 = Inr st'"
    by (rule main_epoch_Inr)
  from train_block_Inr[OF h(2)] obtain g where
    st1: "st1 = st\<lparr>proc := snd tr\<rparr>\<lparr>train_losses := train_losses (st\<lparr>proc := snd tr\<rparr>) @ [res_loss (fst tr)],
                 epoch_grad_norms := epoch_grad_norms (st\<lparr>proc := snd tr\<rparr>) @ [g],
                 train_symbol_accuracy := train_symbol_accuracy (st\<lparr>proc := snd tr\<rparr>)
                    @ [real_of_int (res_correct_symbols (fst tr)) / real_of_int (res_total_symbols (fst tr))],
                 train_sentence_accuracy := train_sentence_accuracy (st\<lparr>proc := snd tr\<rparr>)
                    @ [res_sent_acc (fst tr) / real_of_int (res_num_sent_acc (fst tr))],
                 train_wer := train_wer (st\<lparr>proc := snd tr\<rparr>) @ [res_wer (fst tr) / real_of_int (res_num_wer (fst tr))]\<rparr>"
    by blast
  from validation_block_Inr[OF h(4)] have
    st2: "st2 = st1\<lparr>proc := snd vr\<rparr>\<lparr>validation_losses := validation_losses (st1\<lparr>proc := snd vr\<rparr>) @ [res_loss (fst vr)],
                 validation_symbol_accuracy := validation_symbol_accuracy (st1\<lparr>proc := snd vr\<rparr>)
                    @ [real_of_int (res_correct_symbols (fst vr)) / real_of_int (res_total_symbols (fst vr))],
                 validation_sentence_accuracy := validation_sentence_accuracy (st1\<lparr>proc := snd vr\<rparr>) @ [vsa],
                 validation_wer := validation_wer (st1\<lparr>proc := snd vr\<rparr>) @ [vwer]\<rparr>"
    and v: "vsa = res_sent_acc (fst vr) / real_of_int (res_num_sent_acc (fst vr))"
      "vwer = res_wer (fst vr) / real_of_int (res_num_wer (fst vr))"
    by auto
  from save_block_Inr[OF h(5)] have st3: "st3 = st2 \<or> (\<exists>c fs b. st3 = st2\<lparr>files := fs, saved := saved st2 @ [c], best_sentence_acc := b\<rparr>)"
    by blast
  from summary_block_Inr[OF h(6)] obtain xs where st': "st' = st3\<lparr>summaries := summaries st3 @ xs\<rparr>"
    by blast
  have p1: "proc st1 = snd tr" by (simp add: st1)
  have keep: "train_losses st' = train_losses st2" "epoch_grad_norms st' = epoch_grad_norms st2"
    "train_symbol_accuracy st' = train_symbol_accuracy st2"
    "train_sentence_accuracy st' = train_sentence_accuracy st2"
    "train_wer st' = train_wer st2" "validation_losses st' = validation_losses st2"
    "validation_symbol_accuracy st' = validation_symbol_accuracy st2"
    "validation_sentence_accuracy st' = validation_sentence_accuracy st2"
    "validation_wer st' = validation_wer st2" "learning_rates st' = learning_rates st2"
    using st3 st' by auto
  have vrun: "valid_one_epoch env (vl epoch) (opt_teacher_forcing_ratio opts) (snd tr) = Inr vr"
    using h(3) p1 by simp
  show ?thesis
    apply (rule exI[of _ tr])
    apply (rule exI[of _ vr])
    apply (rule exI[of _ g])
    using h(1) vrun keep v
    apply (simp add: st2 st1)
    done
qed

lemma uneven_scored:
  "list_all2 (scored toy_env False (1 / 2))
     [\<lparr>b_wer = 0, b_sent_acc = 1, b_correct = 1, b_total = 1\<rparr>,
      \<lparr>b_wer = 1, b_sent_acc = 0, b_correct = 0, b_total = 3\<rparr>]
     (uneven_valid_loader 0)"
proof -
  have "scored toy_env False (1 / 2) \<lparr>b_wer = 0, b_sent_acc = 1, b_correct = 1, b_total = 1\<rparr>
          \<lparr>image = 1, encoded = [[1, 2]]\<rparr>"
    unfolding scored_def by (rule exI[of _ 1]) (simp add: toy_defs fed_def)
  moreover have "scored toy_env False (1 / 2) \<lparr>b_wer = 1, b_sent_acc = 0, b_correct = 0, b_total = 3\<rparr>
          \<lparr>image = 0, encoded = [[1, 2], [1, 2], [1, 2]]\<rparr>"
    unfolding scored_def by (rule exI[of _ 1]) (simp add: toy_defs fed_def)
  ultimately show ?thesis by (simp add: uneven_valid_loader_def)
qed

lemma uneven_epoch_run:
  "\<exists>st'. main_epoch toy_env toy_options [] (Some (StepLR 1 1)) 0 5 toy_train_loader
           uneven_valid_loader (main_init default_checkpoint toy_proc Map.empty) 0 = Inr st'
     \<and> validation_symbol_accuracy st' = [1 / 4] \<and> validation_sentence_accuracy st' = [1 / 2]
     \<and> validation_wer st' = [1 / 2]"
  by (simp add: main_defs toy_defs)

lemma epoch_save:
  assumes "main_epoch env opts od sch se pe trl vl st epoch = Inr st'"
  shows "\<exists>vsa vwer.
      validation_sentence_accuracy st' = validation_sentence_accuracy st @ [vsa]
    \<and> validation_wer st' = validation_wer st @ [vwer]
    \<and> (if best_sentence_acc st < 0.9 * vsa + 0.1 * (1 - vwer)
        then best_sentence_acc st' = 0.9 * vsa + 0.1 * (1 - vwer)
           \<and> map ck_epoch (saved st') = map ck_epoch (saved st) @ [se + int epoch + 1]
        else best_sentence_acc st' = best_sentence_acc st \<and> saved st' = saved st)"
proof -
  from assms obtain tr st1 vr st2 vsa vwer st3 where h:
    "train_block (st\<lparr>proc := snd tr\<rparr>) (fst tr) = Inr st1"
    "validation_block (st1\<lparr>proc := snd vr\<rparr>) (fst vr) = Inr (st2, vsa, vwer)"
    "save_block env opts od se epoch (get_lr env (world (proc st1))) vsa vwer st2 = Inr st3"
    "summary_block opts pe se epoch st3 = Inr st'"
    by (rule main_epoch_Inr)
  from train_block_Inr[OF h(1)] have 1: "validation_sentence_accuracy st1 = validation_sentence_accuracy st"
    "validation_wer st1 = validation_wer st" "best_sentence_acc st1 = best_sentence_acc st"
    "saved st1 = saved st"
    by auto
  from validation_block_Inr[OF h(2)] have 2:
    "validation_sentence_accuracy st2 = validation_sentence_accuracy st1 @ [vsa]"
    "validation_wer st2 = validation_wer st1 @ [vwer]" "best_sentence_acc st2 = best_sentence_acc st1"
    "saved st2 = saved st1"
    by auto
  from summary_block_Inr[OF h(4)] have 4:
    "validation_sentence_accuracy st' = validation_sentence_accuracy st3"
    "validation_wer st' = validation_wer st3" "best_sentence_acc st' = best_sentence_acc st3"
    "saved st' = saved st3"
    by auto
  have 3: "validation_sentence_accuracy st3 = validation_sentence_accuracy st2"
    "validation_wer st3 = validation_wer st2"
    using save_block_Inr[OF h(3)] by auto
  have 5: "if best_sentence_acc st2 < 0.9 * vsa + 0.1 * (1 - vwer)
        then best_sentence_acc st3 = 0.9 * vsa + 0.1 * (1 - vwer)
           \<and> map ck_epoch (saved st3) = map ck_epoch (saved st2) @ [se + int epoch + 1]
        else best_sentence_acc st3 = best_sentence_acc st2 \<and> saved st3 = saved st2"
  proof (cases "best_sentence_acc st2 < 0.9 * vsa + 0.1 * (1 - vwer)")
    case True
    with save_block_Inr[OF h(3)] obtain c fs where "ck_epoch c = se + int epoch + 1"
      "st3 = st2\<lparr>files := fs, saved := saved st2 @ [c],
                 best_sentence_acc := 0.9 * vsa + 0.1 * (1 - vwer)\<rparr>"
      by blast
    with True show ?thesis by simp
  next
    case False
    with save_block_Inr[OF h(3)] have "st3 = st2" by blast
    with False show ?thesis by simp
  qed
  show ?thesis
    apply (rule exI[of _ vsa])
    apply (rule exI[of _ vwer])
    using 1 2 3 4 5
    apply simp
    done
qed

lemma Max_snoc:
  "Max (insert (0::real) (set (xs @ [x]))) = max (Max (insert 0 (set xs))) x"
proof -
  have "insert (0::real) (set (xs @ [x])) = insert x (insert 0 (set xs))" by auto
  then show ?thesis by (simp add: max.commute)
qed

lemma improved_at_snoc:
  "improved_at (xs @ [x])
     = improved_at xs @ (if Max (insert 0 (set xs)) < x then [length xs] else [])"
proof -
  have "filter (\<lambda>i. Max (insert 0 (set (take i (xs @ [x])))) < (xs @ [x]) ! i) [0..<length xs]
      = filter (\<lambda>i. Max (insert 0 (set (take i xs))) < xs ! i) [0..<length xs]"
    by (rule filter_cong) (simp_all add: nth_append)
  then show ?thesis by (simp add: improved_at_def)
qed

lemma main_loop_saves:
  "main_loop env opts od sch trl vl ckpt p fs n = Inr st \<Longrightarrow>
   \<exists>A W. length A = n \<and> length W = n
     \<and> validation_sentence_accuracy st = ck_validation_sentence_accuracy ckpt @ A
     \<and> validation_wer st = ck_validation_wer ckpt @ W
     \<and> best_sentence_acc st = Max (insert 0 (set (map2 (\<lambda>sa w. 0.9 * sa + 0.1 * (1 - w)) A W)))
     \<and> map ck_epoch (saved st)
         = map (\<lambda>i. ck_epoch ckpt + int i + 1)
             (improved_at (map2 (\<lambda>sa w. 0.9 * sa + 0.1 * (1 - w)) A W))"
proof (induction n arbitrary: st)
  case 0
  then have "st = main_init ckpt p fs" by (simp add: main_loop_0)
  then show ?case by (simp add: main_init_def improved_at_def)
next
  case (Suc n)
  let ?f = "\<lambda>sa w. 0.9 * sa + 0.1 * (1 - w) :: real"
  let ?pe = "case opt_print_epochs opts of None \<Rightarrow> opt_num_epochs opts | Some k \<Rightarrow> k"
  from Suc.prems obtain st0 where st0: "main_loop env opts od sch trl vl ckpt p fs n = Inr st0"
    and step: "main_epoch env opts od sch (ck_epoch ckpt) ?pe trl vl st0 n = Inr st"
    by (auto simp: main_loop_Suc split: sum.splits)
  from Suc.IH[OF st0] obtain A W where AW: "length A = n" "length W = n"
    "validation_sentence_accuracy st0 = ck_validation_sentence_accuracy ckpt @ A"
    "validation_wer st0 = ck_validation_wer ckpt @ W"
    "best_sentence_acc st0 = Max (insert 0 (set (map2 ?f A W)))"
    "map ck_epoch (saved st0) = map (\<lambda>i. ck_epoch ckpt + int i + 1) (improved_at (map2 ?f A W))"
    by blast
  from epoch_save[OF step] obtain vsa vwer where e:
    "validation_sentence_accuracy st = validation_sentence_accuracy st0 @ [vsa]"
    "validation_wer st = validation_wer st0 @ [vwer]"
    "if best_sentence_acc st0 < ?f vsa vwer
        then best_sentence_acc st = ?f vsa vwer
           \<and> map ck_epoch (saved st) = map ck_epoch (saved st0) @ [ck_epoch ckpt + int n + 1]
        else best_sentence_acc st = best_sentence_acc st0 \<and> saved st = saved st0"
    by blast
  define S where "S = map2 ?f A W"
  define x where "x = ?f vsa vwer"
  have m: "map2 ?f (A @ [vsa]) (W @ [vwer]) = S @ [x]"
    using AW(1,2) by (simp add: S_def x_def)
  have len: "length S = n" using AW(1,2) by (simp add: S_def)
  have b0: "best_sentence_acc st0 = Max (insert 0 (set S))" using AW(5) by (simp add: S_def)
  have s0: "map ck_epoch (saved st0) = map (\<lambda>i. ck_epoch ckpt + int i + 1) (improved_at S)"
    using AW(6) by (simp add: S_def)
  have e3: "if best_sentence_acc st0 < x
        then best_sentence_acc st = x
           \<and> map ck_epoch (saved st) = map ck_epoch (saved st0) @ [ck_epoch ckpt + int n + 1]
        else best_sentence_acc st = best_sentence_acc st0 \<and> saved st = saved st0"
    using e(3) by (simp add: x_def)
  define M where "M = Max (insert 0 (set S))"
  have b0': "best_sentence_acc st0 = M" using b0 by (simp add: M_def)
  have mx: "Max (insert 0 (set (S @ [x]))) = max M x" unfolding M_def by (rule Max_snoc)
  have im: "improved_at (S @ [x]) = improved_at S @ (if M < x then [length S] else [])"
    unfolding M_def by (rule improved_at_snoc)
  have best': "best_sentence_acc st = max M x"
  proof (cases "M < x")
    case True
    then show ?thesis using e3 b0' by (simp add: max_def)
  next
    case False
    then show ?thesis using e3 b0' by (simp add: max_def)
  qed
  have best: "best_sentence_acc st = Max (insert 0 (set (map2 ?f (A @ [vsa]) (W @ [vwer]))))"
    unfolding m mx by (rule best')
  have sav': "map ck_epoch (saved st)
         = map (\<lambda>i. ck_epoch ckpt + int i + 1) (improved_at S @ (if M < x then [length S] else []))"
  proof (cases "M < x")
    case True
    then show ?thesis using e3 b0' s0 len by simp
  next
    case False
    then show ?thesis using e3 b0' s0 len by simp
  qed
  have sav: "map ck_epoch (saved st)
         = map (\<lambda>i. ck_epoch ckpt + int i + 1) (improved_at (map2 ?f (A @ [vsa]) (W @ [vwer])))"
    unfolding m im by (rule sav')
  show ?case
    apply (rule exI[of _ "A @ [vsa]"])
    apply (rule exI[of _ "W @ [vwer]"])
    using AW(1-4) e(1,2) best sav
    apply simp
    done
qed

lemma improved_at_example: "improved_at [0.5, 0.4, 0.6, 0.6, 0.7] = [0, 2, 4]"
proof -
  have 1: "improved_at ([] @ [0.5 :: real]) = [0]"
    unfolding improved_at_snoc by (simp add: improved_at_def)
  have 2: "improved_at ([0.5] @ [0.4 :: real]) = [0]"
    unfolding improved_at_snoc using 1 by simp
  have 3: "improved_at ([0.5, 0.4] @ [0.6 :: real]) = [0, 2]"
    unfolding improved_at_snoc using 2 by simp
  have 4: "improved_at ([0.5, 0.4, 0.6] @ [0.6 :: real]) = [0, 2]"
    unfolding improved_at_snoc using 3 by simp
  have 5: "improved_at ([0.5, 0.4, 0.6, 0.6] @ [0.7 :: real]) = [0, 2, 4]"
    unfolding improved_at_snoc using 4 by simp
  then show ?thesis by simp
qed

lemma toy_five_epochs:
  "\<exists>st. main_loop toy_env toy_options [] (Some (StepLR 1 1)) toy_train_loader toy_valid_loader
          default_checkpoint toy_proc Map.empty 5 = Inr st
     \<and> epoch_scores default_checkpoint st = [0.5, 0.4, 0.6, 0.6, 0.7]
     \<and> map ck_epoch (saved st) = [1, 3, 5]"
  by (simp add: eval_nat_numeral main_loop_Suc main_loop_0 main_defs toy_defs epoch_scores_def)



lemma map_state_dict_cpu:
  "\<forall>(k, s)\<in>set (map_state_dict (\<lambda>s. s\<lparr>device := Cpu\<rparr>) sd). device s = Cpu"
  by (auto simp: map_state_dict_def)

lemma load_checkpoint_host:
  assumes "load_checkpoint fs path False = Inr c"
  shows "\<exists>c0. fs path = Some c0 \<and> c = map_storages (\<lambda>s. s\<lparr>device := Cpu\<rparr>) c0"
  using assms
  by (auto simp: load_checkpoint_def torch_load_def split: option.splits)

lemma toy_get_optimizer_lr:
  "toy_get_optimizer name lr wd = Inr opt \<Longrightarrow> \<forall>g\<in>set (param_groups opt). pg_lr g = lr"
  by (auto simp: toy_get_optimizer_def split: if_splits)

lemma toy_build_optimizer:
  "build_optimizer toy_get_optimizer toy_options default_checkpoint
     = Inr \<lparr>param_groups = [\<lparr>pg_lr = 0, pg_weight_decay = 0, pg_initial_lr = None\<rparr>],
            buffers = []\<rparr>"
  by (simp add: build_optimizer_def toy_get_optimizer_def toy_options_def default_checkpoint_def)

lemma length_filter_concat:
  "length (filter P (concat t)) = sum_list (map (\<lambda>r. length (filter P r)) t)"
  by (induction t) simp_all

lemma count_positions:
  "length (filter P (concat t))
     = card {(i, j). i < length t \<and> j < length (t ! i) \<and> P (t ! i ! j)}"
proof -
  have "length (filter P (concat t)) = (\<Sum>i<length t. length (filter P (t ! i)))"
    by (simp add: length_filter_concat sum_list_sum_nth atLeast0LessThan)
  also have "\<dots> = (\<Sum>i<length t. card {j. j < length (t ! i) \<and> P (t ! i ! j)})"
    by (simp add: length_filter_conv_card)
  also have "\<dots> = card (SIGMA i:{..<length t}. {j. j < length (t ! i) \<and> P (t ! i ! j)})"
    by simp
  also have "(SIGMA i:{..<length t}. {j. j < length (t ! i) \<and> P (t ! i ! j)})
      = {(i, j). i < length t \<and> j < length (t ! i) \<and> P (t ! i ! j)}"
    by auto
  finally show ?thesis .
qed

lemma zip_concat_rows:
  "map length s = map length t \<Longrightarrow> zip (concat s) (concat t) = concat (map2 zip s t)"
proof (induction s arbitrary: t)
  case Nil
  then show ?case by simp
next
  case (Cons r s)
  then obtain r' t' where t: "t = r' # t'" by (cases t) auto
  with Cons.prems have "length r = length r'" "map length s = map length t'" by simp_all
  with Cons.IH[of t'] show ?case by (simp add: t)
qed

lemma count_equal_positions:
  assumes "count_equal s t = Inr c"
  shows "length s = length t \<and> (\<forall>i<length s. length (s ! i) = length (t ! i))
       \<and> c = int (card {(i, j). i < length s \<and> j < length (s ! i) \<and> s ! i ! j = t ! i ! j})"
proof -
  from assms have sh: "map length s = map length t"
    and c: "c = int (length (filter (\<lambda>(x, y). x = y) (zip (concat s) (concat t))))"
    by (auto simp: count_equal_def same_shape_def split: if_splits)
  from sh have len: "length s = length t" by (rule map_eq_imp_length_eq)
  have rows: "length (s ! i) = length (t ! i)" if "i < length s" for i
  proof -
    have "map length s ! i = map length t ! i" using sh by simp
    then show ?thesis using that len by simp
  qed
  have "{(i, j). i < length (map2 zip s t) \<and> j < length (map2 zip s t ! i)
            \<and> (case map2 zip s t ! i ! j of (x, y) \<Rightarrow> x = y)}
      = {(i, j). i < length s \<and> j < length (s ! i) \<and> s ! i ! j = t ! i ! j}"
    using len rows by auto
  then have "length (filter (\<lambda>(x, y). x = y) (concat (map2 zip s t)))
      = card {(i, j). i < length s \<and> j < length (s ! i) \<and> s ! i ! j = t ! i ! j}"
    by (simp add: count_positions)
  then show ?thesis using len rows c by (simp add: zip_concat_rows[OF sh])
qed

lemma shift1_nth:
  "length (shift1 t) = length t"
  "i < length t \<Longrightarrow> length (shift1 t ! i) = length (t ! i) - 1"
  "i < length t \<Longrightarrow> j < length (t ! i) - 1 \<Longrightarrow> shift1 t ! i ! j = t ! i ! Suc j"
  by (simp_all add: shift1_def)

lemma masked_fill_nth:
  "length (masked_fill a b t) = length t"
  "i < length t \<Longrightarrow> length (masked_fill a b t ! i) = length (t ! i)"
  "i < length t \<Longrightarrow> j < length (t ! i)
     \<Longrightarrow> masked_fill a b t ! i ! j = (if t ! i ! j = a then b else t ! i ! j)"
  by (simp_all add: masked_fill_def)

lemma count_differs_positions:
  "count_differs (shift1 t) v
     = int (card {(i, j). i < length t \<and> Suc j < length (t ! i) \<and> t ! i ! Suc j \<noteq> v})"
proof -
  have "{(i, j). i < length (shift1 t) \<and> j < length (shift1 t ! i) \<and> shift1 t ! i ! j \<noteq> v}
      = {(i, j). i < length t \<and> Suc j < length (t ! i) \<and> t ! i ! Suc j \<noteq> v}"
    by (auto simp: shift1_nth)
  then show ?thesis by (simp add: count_differs_def count_positions)
qed

lemma toy_batch_run_skilled:
  "\<exists>p' a'. train_batch toy_env (1 / 2) 2
              (\<lparr>world = 1, grad_enabled = True, events = []\<rparr>, pass_acc_init)
              \<lparr>image = 1, encoded = [[1, 2, - 1]]\<rparr> = Inr (p', a')
     \<and> correct_symbols a' = 1 \<and> total_symbols a' = 1"
  by (simp add: toy_defs)

subsection \<open>What a run saves\<close>





lemma resumed_build_optimizer:
  "build_optimizer toy_get_optimizer resume_options
     (map_storages (\<lambda>s. s\<lparr>device := Cpu\<rparr>) resumed_checkpoint)
   = Inr \<lparr>param_groups = [\<lparr>pg_lr = 1 / 10, pg_weight_decay = 0, pg_initial_lr = None\<rparr>],
          buffers = [(''exp_avg'', \<lparr>device = Cpu, payload = [0]\<rparr>)]\<rparr>"
  by (simp add: build_optimizer_def toy_get_optimizer_def resume_options_def toy_options_def
      resumed_checkpoint_def map_storages_def map_state_dict_def load_state_dict_def)

subsection \<open>The order of the mixed-precision operations\<close>

text \<open>
  Claim C3. A training pass that returns has extended the trace by the switch to
  gradient tracking and training mode and then, for every batch in turn, by the
  forward call, the clearing of the gradients, the scaling of the loss, the backward
  pass, the unscaling, the clipping of the gradient norm against \<open>max_grad_norm\<close>, the
  optimiser step through the scaler, the update of the scale factor and, last, the
  step of the schedule; so the schedule is stepped exactly once per batch.
\<close>

theorem train_one_epoch_order:
  assumes "train_one_epoch env data_loader tf mgn p = Inr rp"
  shows "\<exists>ls. length ls = length data_loader \<and>
           events (snd rp) = events p @ [SetGradEnabled True, ModelTrain]
             @ concat (map (\<lambda>c. [ModelCall (fst c) True tf True, ZeroGrad, ScaleLoss (snd c),
                                   Backward, Unscale, ClipGradNorm mgn, ScalerStep, ScalerUpdate,
                                   SchedulerStep])
                         (zip (map (fed env) data_loader) ls))
         \<and> length (filter (\<lambda>e. e = SchedulerStep) (events (snd rp)))
             = length (filter (\<lambda>e. e = SchedulerStep) (events p)) + length data_loader"
proof -
  from train_one_epoch_Inr(3)[OF assms] obtain ls where ls: "length ls = length data_loader"
    and ev: "events (snd rp) = events p @ [SetGradEnabled True, ModelTrain]
             @ concat (map (train_ops tf mgn True) (zip (map (fed env) data_loader) ls))"
    by blast
  have ops: "train_ops tf mgn True = (\<lambda>c. [ModelCall (fst c) True tf True, ZeroGrad, ScaleLoss (snd c),
                                   Backward, Unscale, ClipGradNorm mgn, ScalerStep, ScalerUpdate,
                                   SchedulerStep])"
    by (rule ext) (simp add: train_ops_def)
  have cnt: "length (filter (\<lambda>e. e = SchedulerStep) (concat (map (train_ops tf mgn True) cs))) = length cs" for cs
    by (induction cs) (simp_all add: train_ops_def)
  have "length (filter (\<lambda>e. e = SchedulerStep) (events (snd rp)))
             = length (filter (\<lambda>e. e = SchedulerStep) (events p)) + length data_loader"
    using ls by (simp add: ev cnt)
  with ls ev ops show ?thesis by auto
qed

theorem train_one_epoch_order_witness:
  "\<exists>rp. train_one_epoch toy_env (toy_train_loader 0) (1 / 2) 2 toy_proc = Inr rp \<and>
     (\<exists>ls. length ls = length (toy_train_loader 0) \<and>
           events (snd rp) = events toy_proc @ [SetGradEnabled True, ModelTrain]
             @ concat (map (\<lambda>c. [ModelCall (fst c) True (1 / 2) True, ZeroGrad, ScaleLoss (snd c),
                                   Backward, Unscale, ClipGradNorm 2, ScalerStep, ScalerUpdate,
                                   SchedulerStep])
                         (zip (map (fed toy_env) (toy_train_loader 0)) ls))
         \<and> length (filter (\<lambda>e. e = SchedulerStep) (events (snd rp)))
             = length (filter (\<lambda>e. e = SchedulerStep) (events toy_proc))
                 + length (toy_train_loader 0))"
  using train_one_epoch_order[OF toy_train_run] toy_train_run by blast

subsection \<open>The gradient mode of the validation pass\<close>

text \<open>
  Claim C5. The claim asks for gradient tracking to be off during validation. What the
  controller does: \<^verbatim>\<open>valid_one_epoch\<close> never sets the gradient mode, and it runs after
  \<^verbatim>\<open>train_one_epoch\<close> has switched tracking on, so every forward call of the validation
  pass of every epoch runs with gradient tracking enabled, and tracking is still
  enabled when the epoch ends. (\<^verbatim>\<open>run_epoch\<close> with \<^verbatim>\<open>train=False\<close> does switch it
  off, see \<open>run_epoch_validation_disables_grad\<close>.)
\<close>

theorem validation_pass_keeps_grad_enabled:
  assumes "main_epoch env opts od sch se pe trl vl st epoch = Inr st'"
  shows "vl epoch \<noteq> [] \<and> grad_enabled (proc st') \<and>
         (\<exists>evs. events (proc st') = evs @ ModelEval
             # map (\<lambda>d. ModelCall (fed env d) False (opt_teacher_forcing_ratio opts) True)
                 (vl epoch))"
proof -
  from main_epoch_proc[OF assms] obtain tr vr where h:
    "train_one_epoch env (trl epoch) (opt_teacher_forcing_ratio opts)
                  (opt_max_grad_norm opts) (proc st) = Inr tr"
    "valid_one_epoch env (vl epoch) (opt_teacher_forcing_ratio opts) (snd tr) = Inr vr"
    "proc st' = snd vr"
    by blast
  have g1: "grad_enabled (snd tr)" by (rule train_one_epoch_Inr(2)[OF h(1)])
  show ?thesis
    using valid_one_epoch_Inr(1,2,3)[OF h(2)] g1 h(3) by auto
qed

theorem validation_pass_keeps_grad_enabled_witness:
  "\<exists>st'. main_epoch toy_env toy_options [] (Some (StepLR 1 1)) 0 5 toy_train_loader
           toy_valid_loader (main_init default_checkpoint toy_proc Map.empty) 0 = Inr st'
     \<and> toy_valid_loader 0 \<noteq> [] \<and> grad_enabled (proc st')
     \<and> (\<exists>evs. events (proc st') = evs @ ModelEval
             # map (\<lambda>d. ModelCall (fed toy_env d) False (opt_teacher_forcing_ratio toy_options) True)
                 (toy_valid_loader 0))"
proof -
  from toy_epoch_run obtain st' where
    h: "main_epoch toy_env toy_options [] (Some (StepLR 1 1)) 0 5 toy_train_loader
           toy_valid_loader (main_init default_checkpoint toy_proc Map.empty) 0 = Inr st'"
    by blast
  from validation_pass_keeps_grad_enabled[OF h] h show ?thesis by blast
qed

subsection \<open>A pass without a single valid symbol\<close>

text \<open>
  Claim C8. Once a run has reached epoch \<open>k\<close> and the training pass of that epoch, or
  its validation pass, returns with a total symbol count of zero, the division that
  computes the epoch's symbol accuracy raises \<^verbatim>\<open>ZeroDivisionError\<close>; nothing catches
  it, so every run of more than \<open>k\<close> epochs ends in that error instead of recording an
  accuracy.
\<close>

theorem zero_total_symbols_is_fatal:
  assumes "main_loop env opts od (Some s) trl vl ckpt p fs k = Inr st"
    and "k < n"
    and "train_one_epoch env (trl k) (opt_teacher_forcing_ratio opts) (opt_max_grad_norm opts)
           (proc st) = Inr tr"
    and "res_total_symbols (fst tr) = 0 \<or>
         (\<exists>st1 vr. train_block (st\<lparr>proc := snd tr\<rparr>) (fst tr) = Inr st1
            \<and> valid_one_epoch env (vl k) (opt_teacher_forcing_ratio opts) (proc st1) = Inr vr
            \<and> res_total_symbols (fst vr) = 0)"
  shows "main_loop env opts od (Some s) trl vl ckpt p fs n = Inl ZeroDivisionError"
proof -
  let ?pe = "case opt_print_epochs opts of None \<Rightarrow> opt_num_epochs opts | Some k \<Rightarrow> k"
  have step: "main_epoch env opts od (Some s) (ck_epoch ckpt) ?pe trl vl st k = Inl ZeroDivisionError"
    using assms(4)
  proof
    assume z: "res_total_symbols (fst tr) = 0"
    from train_one_epoch_Inr(4)[OF assms(3)] obtain g where "res_grad_norm (fst tr) = Some g"
      by (auto simp: result_of_def)
    then have "train_block (st\<lparr>proc := snd tr\<rparr>) (fst tr) = Inl ZeroDivisionError"
      using z by (simp add: train_block_def int_truediv_def)
    then show ?thesis using assms(3) by (simp add: main_epoch_def)
  next
    assume "\<exists>st1 vr. train_block (st\<lparr>proc := snd tr\<rparr>) (fst tr) = Inr st1
            \<and> valid_one_epoch env (vl k) (opt_teacher_forcing_ratio opts) (proc st1) = Inr vr
            \<and> res_total_symbols (fst vr) = 0"
    then obtain st1 vr where h: "train_block (st\<lparr>proc := snd tr\<rparr>) (fst tr) = Inr st1"
      "valid_one_epoch env (vl k) (opt_teacher_forcing_ratio opts) (proc st1) = Inr vr"
      "res_total_symbols (fst vr) = 0"
      by blast
    have "validation_block (st1\<lparr>proc := snd vr\<rparr>) (fst vr) = Inl ZeroDivisionError"
      using h(3) by (simp add: validation_block_def int_truediv_def)
    then show ?thesis using assms(3) h(1,2) by (simp add: main_epoch_def Let_def)
  qed
  have "main_loop env opts od (Some s) trl vl ckpt p fs (Suc k) = Inl ZeroDivisionError"
    using assms(1) step by (simp add: main_loop_Suc)
  moreover have "Suc k \<le> n" using assms(2) by simp
  ultimately show ?thesis by (rule main_loop_fails_on)
qed

theorem zero_total_symbols_is_fatal_witness:
  "main_loop toy_env toy_options [] (Some (StepLR 1 1)) toy_train_loader blank_valid_loader
     default_checkpoint toy_proc Map.empty 0
     = Inr (main_init default_checkpoint toy_proc Map.empty)
   \<and> (0::nat) < 1
   \<and> main_loop toy_env toy_options [] (Some (StepLR 1 1)) toy_train_loader blank_valid_loader
     default_checkpoint toy_proc Map.empty 1 = Inl ZeroDivisionError"
proof -
  let ?st = "main_init default_checkpoint toy_proc Map.empty"
  let ?tr = "(\<lparr>res_loss = 1, res_correct_symbols = 0, res_total_symbols = 1, res_wer = 1,
              res_num_wer = 1, res_sent_acc = 0, res_num_sent_acc = 1, res_grad_norm = Some 1\<rparr>,
            \<lparr>world = 1, grad_enabled = True,
              events = [SetGradEnabled True, ModelTrain, ModelCall [[1, 2, 0]] True (1 / 2) True,
                        ZeroGrad, ScaleLoss 1, Backward, Unscale, ClipGradNorm 2, ScalerStep,
                        ScalerUpdate, SchedulerStep]\<rparr>)"
  have a: "main_loop toy_env toy_options [] (Some (StepLR 1 1)) toy_train_loader
     blank_valid_loader default_checkpoint toy_proc Map.empty 0 = Inr ?st"
    by (rule main_loop_0)
  have b: "(0::nat) < 1" by simp
  have c: "train_one_epoch toy_env (toy_train_loader 0) (opt_teacher_forcing_ratio toy_options)
     (opt_max_grad_norm toy_options) (proc ?st) = Inr ?tr"
    by (rule blank_train_run)
  have d: "res_total_symbols (fst ?tr) = 0 \<or>
     (\<exists>st1 vr. train_block (?st\<lparr>proc := snd ?tr\<rparr>) (fst ?tr) = Inr st1
        \<and> valid_one_epoch toy_env (blank_valid_loader 0) (opt_teacher_forcing_ratio toy_options)
             (proc st1) = Inr vr
        \<and> res_total_symbols (fst vr) = 0)"
    using blank_valid_run by simp
  from zero_total_symbols_is_fatal[OF a b c d] a b show ?thesis by simp
qed

subsection \<open>The padding sentinel\<close>

text \<open>
  Claim C4. In a batch of the training pass or of the validation pass, with a pad id
  other than \<open>-1\<close>: the network is called once, on a tensor \<open>fed\<close> that has the shape
  of the batch's reference and holds, position by position, the pad id where the
  reference holds \<open>-1\<close> and the reference's entry elsewhere, so it sees no \<open>-1\<close>. The
  tensor \<open>restored\<close> that enters the metrics has the same shape and holds \<open>-1\<close> where the
  reference holds \<open>-1\<close> or the pad id, and the reference's entry elsewhere, so it holds
  no pad id. The word error rate and the sentence accuracy of the batch are computed
  on the renderings of the prediction and of \<open>restored\<close>. The prediction has one
  column less than the reference; the correct symbols added are the number of
  positions \<open>(i, j)\<close> at which the prediction equals \<open>restored\<close> one column further,
  at \<open>(i, j + 1)\<close>; and the total added is the number of positions \<open>(i, j + 1)\<close> at
  which \<open>restored\<close> differs from \<open>-1\<close>, that is, at which the reference is neither
  \<open>-1\<close> nor the pad id.
\<close>

theorem pad_sentinel_replaced_then_restored:
  assumes "pad_id env \<noteq> - 1"
    and "(train \<and> train_batch env tf mgn (p, a) d = Inr (p', a'))
       \<or> (\<not> train \<and> valid_batch env tf (p, a) d = Inr (p', a'))"
  shows "(\<exists>evs. events p' = events p @ ModelCall (fed env d) train tf (grad_enabled p) # evs
            \<and> (\<forall>t b r g. ModelCall t b r g \<notin> set evs))
       \<and> length (fed env d) = length (encoded d)
       \<and> (\<forall>i<length (encoded d). length (fed env d ! i) = length (encoded d ! i)
            \<and> (\<forall>j<length (encoded d ! i).
                  fed env d ! i ! j
                    = (if encoded d ! i ! j = - 1 then pad_id env else encoded d ! i ! j)))
       \<and> (\<forall>row\<in>set (fed env d). - 1 \<notin> set row)
       \<and> length (restored env d) = length (encoded d)
       \<and> (\<forall>i<length (encoded d). length (restored env d ! i) = length (encoded d ! i)
            \<and> (\<forall>j<length (encoded d ! i).
                  restored env d ! i ! j
                    = (if encoded d ! i ! j = - 1 \<or> encoded d ! i ! j = pad_id env then - 1
                       else encoded d ! i ! j)))
       \<and> (\<forall>row\<in>set (restored env d). pad_id env \<notin> set row)
       \<and> wer a' = wer a
            + word_error_rate env (id_to_string env True (predicted env (world p) train tf d))
                (id_to_string env True (restored env d))
       \<and> sent_acc a' = sent_acc a
            + sentence_acc env (id_to_string env True (predicted env (world p) train tf d))
                (id_to_string env True (restored env d))
       \<and> length (predicted env (world p) train tf d) = length (encoded d)
       \<and> (\<forall>i<length (encoded d).
             length (predicted env (world p) train tf d ! i) = length (encoded d ! i) - 1)
       \<and> correct_symbols a' - correct_symbols a
            = int (card {(i, j). i < length (encoded d) \<and> Suc j < length (encoded d ! i)
                           \<and> predicted env (world p) train tf d ! i ! j
                               = restored env d ! i ! Suc j})
       \<and> total_symbols a' - total_symbols a
            = int (card {(i, j). i < length (encoded d) \<and> Suc j < length (encoded d ! i)
                           \<and> restored env d ! i ! Suc j \<noteq> - 1})
       \<and> total_symbols a' - total_symbols a
            = int (card {(i, j). i < length (encoded d) \<and> Suc j < length (encoded d ! i)
                           \<and> encoded d ! i ! Suc j \<noteq> - 1
                           \<and> encoded d ! i ! Suc j \<noteq> pad_id env})"
proof -
  let ?pred = "predicted env (world p) train tf d"
  have ev: "\<exists>evs. events p' = events p @ ModelCall (fed env d) train tf (grad_enabled p) # evs
            \<and> (\<forall>t b r g. ModelCall t b r g \<notin> set evs)"
    using assms(2)
  proof
    assume h: "train \<and> train_batch env tf mgn (p, a) d = Inr (p', a')"
    from train_batch_Inr(1)[of env tf mgn "(p, a)" d "(p', a')"] h obtain l where
      "events p' = events p @ train_ops tf mgn (grad_enabled p) (fed env d, l)"
      by auto
    then have "events p' = events p @ ModelCall (fed env d) train tf (grad_enabled p)
         # [ZeroGrad, ScaleLoss l, Backward, Unscale, ClipGradNorm mgn, ScalerStep, ScalerUpdate,
            SchedulerStep]"
      using h by (simp add: train_ops_def)
    moreover have "\<forall>t b r g. ModelCall t b r g \<notin> set [ZeroGrad, ScaleLoss l, Backward, Unscale,
        ClipGradNorm mgn, ScalerStep, ScalerUpdate, SchedulerStep]"
      by simp
    ultimately show ?thesis by blast
  next
    assume h: "\<not> train \<and> valid_batch env tf (p, a) d = Inr (p', a')"
    from valid_batch_Inr(1)[of env tf "(p, a)" d "(p', a')"] h
    have "events p' = events p @ ModelCall (fed env d) train tf (grad_enabled p) # []"
      by simp
    then show ?thesis by force
  qed
  have fedlen: "length (fed env d) = length (encoded d)"
    by (simp add: fed_def masked_fill_nth)
  have fedpt: "\<forall>i<length (encoded d). length (fed env d ! i) = length (encoded d ! i)
            \<and> (\<forall>j<length (encoded d ! i).
                  fed env d ! i ! j
                    = (if encoded d ! i ! j = - 1 then pad_id env else encoded d ! i ! j))"
    by (simp add: fed_def masked_fill_nth)
  have fedfree: "\<forall>row\<in>set (fed env d). - 1 \<notin> set row"
    using masked_fill_free[of "- 1" "pad_id env"] assms(1) by (auto simp: fed_def)
  have rest: "restored env d = masked_fill (pad_id env) (- 1) (encoded d)"
    by (simp add: restored_def fed_def masked_fill_twice)
  have restlen: "length (restored env d) = length (encoded d)"
    by (simp add: rest masked_fill_nth)
  have restpt: "\<forall>i<length (encoded d). length (restored env d ! i) = length (encoded d ! i)
            \<and> (\<forall>j<length (encoded d ! i).
                  restored env d ! i ! j
                    = (if encoded d ! i ! j = - 1 \<or> encoded d ! i ! j = pad_id env then - 1
                       else encoded d ! i ! j))"
    by (auto simp: rest masked_fill_nth)
  have restfree: "\<forall>row\<in>set (restored env d). pad_id env \<notin> set row"
    using masked_fill_free[of "pad_id env" "- 1"] assms(1) by (auto simp: restored_def)
  have "\<exists>b. batch_scores env (fed env d) ?pred = Inr b
      \<and> wer a' = wer a + b_wer b \<and> sent_acc a' = sent_acc a + b_sent_acc b
      \<and> correct_symbols a' = correct_symbols a + b_correct b
      \<and> total_symbols a' = total_symbols a + b_total b"
    using assms(2)
    by (auto simp: train_batch_def valid_batch_def Let_def fed_def predicted_def
        split: sum.splits dest!: batch_metrics_Inr)
  then obtain b where b: "batch_scores env (fed env d) ?pred = Inr b"
    "wer a' = wer a + b_wer b" "sent_acc a' = sent_acc a + b_sent_acc b"
    "correct_symbols a' = correct_symbols a + b_correct b"
    "total_symbols a' = total_symbols a + b_total b"
    by blast
  from b(1) have sc: "count_equal ?pred (shift1 (restored env d)) = Inr (b_correct b)"
    "b_total b = count_differs (shift1 (restored env d)) (- 1)"
    "b_wer b = word_error_rate env (id_to_string env True ?pred)
                (id_to_string env True (restored env d))"
    "b_sent_acc b = sentence_acc env (id_to_string env True ?pred)
                (id_to_string env True (restored env d))"
    by (auto simp: batch_scores_def Let_def restored_def split: sum.splits)
  note ce = count_equal_positions[OF sc(1)]
  have predlen: "length ?pred = length (encoded d)"
    using ce restlen by (simp add: shift1_nth)
  have predrows: "\<forall>i<length (encoded d). length (?pred ! i) = length (encoded d ! i) - 1"
    using ce restlen restpt predlen by (simp add: shift1_nth)
  have "{(i, j). i < length ?pred \<and> j < length (?pred ! i)
            \<and> ?pred ! i ! j = shift1 (restored env d) ! i ! j}
      = {(i, j). i < length (encoded d) \<and> Suc j < length (encoded d ! i)
            \<and> ?pred ! i ! j = restored env d ! i ! Suc j}"
    using predlen predrows restlen restpt by (auto simp: shift1_nth)
  then have corr: "correct_symbols a' - correct_symbols a
            = int (card {(i, j). i < length (encoded d) \<and> Suc j < length (encoded d ! i)
                           \<and> ?pred ! i ! j = restored env d ! i ! Suc j})"
    using ce b(4) by simp
  have "{(i, j). i < length (restored env d) \<and> Suc j < length (restored env d ! i)
            \<and> restored env d ! i ! Suc j \<noteq> - 1}
      = {(i, j). i < length (encoded d) \<and> Suc j < length (encoded d ! i)
            \<and> restored env d ! i ! Suc j \<noteq> - 1}"
    using restlen restpt by auto
  then have tot: "total_symbols a' - total_symbols a
            = int (card {(i, j). i < length (encoded d) \<and> Suc j < length (encoded d ! i)
                           \<and> restored env d ! i ! Suc j \<noteq> - 1})"
    using sc(2) b(5) by (simp add: count_differs_positions)
  have "{(i, j). i < length (encoded d) \<and> Suc j < length (encoded d ! i)
            \<and> restored env d ! i ! Suc j \<noteq> - 1}
      = {(i, j). i < length (encoded d) \<and> Suc j < length (encoded d ! i)
            \<and> encoded d ! i ! Suc j \<noteq> - 1 \<and> encoded d ! i ! Suc j \<noteq> pad_id env}"
    using restpt by auto
  with tot have tot2: "total_symbols a' - total_symbols a
            = int (card {(i, j). i < length (encoded d) \<and> Suc j < length (encoded d ! i)
                           \<and> encoded d ! i ! Suc j \<noteq> - 1
                           \<and> encoded d ! i ! Suc j \<noteq> pad_id env})"
    by simp
  have w: "wer a' = wer a
            + word_error_rate env (id_to_string env True ?pred)
                (id_to_string env True (restored env d))"
    using sc(3) b(2) by simp
  have sa: "sent_acc a' = sent_acc a
            + sentence_acc env (id_to_string env True ?pred)
                (id_to_string env True (restored env d))"
    using sc(4) b(3) by simp
  show ?thesis
    using ev fedlen fedpt fedfree restlen restpt restfree w sa predlen predrows corr tot tot2
    by (intro conjI)
qed

theorem pad_sentinel_replaced_then_restored_witness:
  "pad_id toy_env \<noteq> - 1 \<and>
   (\<exists>p' a'. train_batch toy_env (1 / 2) 2
              (\<lparr>world = 1, grad_enabled = True, events = []\<rparr>, pass_acc_init)
              \<lparr>image = 1, encoded = [[1, 2, - 1]]\<rparr> = Inr (p', a')
      \<and> correct_symbols a' = 1 \<and> total_symbols a' = 1
      \<and> (\<forall>row\<in>set (fed toy_env \<lparr>image = 1, encoded = [[1, 2, - 1]]\<rparr>). - 1 \<notin> set row)
      \<and> correct_symbols a' - correct_symbols pass_acc_init
           = int (card {(i, j). i < length [[1, 2, - 1 :: int]]
                          \<and> Suc j < length ([[1, 2, - 1 :: int]] ! i)
                          \<and> predicted toy_env 1 True (1 / 2)
                                \<lparr>image = 1, encoded = [[1, 2, - 1]]\<rparr> ! i ! j
                              = restored toy_env \<lparr>image = 1, encoded = [[1, 2, - 1]]\<rparr> ! i ! Suc j})
      \<and> total_symbols a' - total_symbols pass_acc_init
           = int (card {(i, j). i < length [[1, 2, - 1 :: int]]
                          \<and> Suc j < length ([[1, 2, - 1 :: int]] ! i)
                          \<and> [[1, 2, - 1 :: int]] ! i ! Suc j \<noteq> - 1
                          \<and> [[1, 2, - 1 :: int]] ! i ! Suc j \<noteq> pad_id toy_env}))"
proof -
  let ?d = "\<lparr>image = 1 :: nat, encoded = [[1, 2, - 1]]\<rparr>"
  let ?p = "\<lparr>world = 1 :: nat, grad_enabled = True, events = []\<rparr>"
  have pad: "pad_id toy_env \<noteq> - 1" by (simp add: toy_env_def)
  from toy_batch_run_skilled obtain p' a' where
    run: "train_batch toy_env (1 / 2) 2 (?p, pass_acc_init) ?d = Inr (p', a')"
    and vals: "correct_symbols a' = 1" "total_symbols a' = 1"
    by blast
  from run have h: "(True \<and> train_batch toy_env (1 / 2) 2 (?p, pass_acc_init) ?d = Inr (p', a'))
       \<or> (\<not> True \<and> valid_batch toy_env (1 / 2) (?p, pass_acc_init) ?d = Inr (p', a'))"
    by simp
  note t = pad_sentinel_replaced_then_restored[OF pad h]
  have free: "\<forall>row\<in>set (fed toy_env ?d). - 1 \<notin> set row"
    using t by blast
  have corr: "correct_symbols a' - correct_symbols pass_acc_init
           = int (card {(i, j). i < length [[1, 2, - 1 :: int]]
                          \<and> Suc j < length ([[1, 2, - 1 :: int]] ! i)
                          \<and> predicted toy_env 1 True (1 / 2) ?d ! i ! j
                              = restored toy_env ?d ! i ! Suc j})"
    using t by simp
  have tot: "total_symbols a' - total_symbols pass_acc_init
           = int (card {(i, j). i < length [[1, 2, - 1 :: int]]
                          \<and> Suc j < length ([[1, 2, - 1 :: int]] ! i)
                          \<and> [[1, 2, - 1 :: int]] ! i ! Suc j \<noteq> - 1
                          \<and> [[1, 2, - 1 :: int]] ! i ! Suc j \<noteq> pad_id toy_env})"
    using t by simp
  show ?thesis
    apply (rule conjI[OF pad])
    apply (rule exI[of _ p'])
    apply (rule exI[of _ a'])
    apply (intro conjI run vals free corr tot)
    done
qed

subsection \<open>Sample-weighted and batch-weighted averages\<close>

text \<open>
  Claim C6. An epoch that completes appends, for either split, a symbol accuracy that
  is the sum of the batches' correct symbols over the sum of their counted symbols,
  and a word error rate and a sentence accuracy that are the plain means of the
  batches' values, whatever the sizes of the batches. The two ways of averaging
  differ on batches of unequal size: for the two validation batches of one and of
  three sentences of \<open>uneven_valid_loader\<close>, the symbol accuracy over all symbols is
  \<open>1/4\<close>, while the mean of the two batches' symbol accuracies is \<open>1/2\<close>.
\<close>

theorem epoch_averages:
  assumes "main_epoch env opts od sch se pe trl vl st epoch = Inr st'"
  shows "(\<exists>bt bv.
            list_all2 (scored env True (opt_teacher_forcing_ratio opts)) bt (trl epoch)
          \<and> list_all2 (scored env False (opt_teacher_forcing_ratio opts)) bv (vl epoch)
          \<and> train_symbol_accuracy st' = train_symbol_accuracy st @ [sample_weighted bt]
          \<and> train_wer st' = train_wer st @ [batch_mean b_wer bt]
          \<and> train_sentence_accuracy st' = train_sentence_accuracy st @ [batch_mean b_sent_acc bt]
          \<and> validation_symbol_accuracy st' = validation_symbol_accuracy st @ [sample_weighted bv]
          \<and> validation_wer st' = validation_wer st @ [batch_mean b_wer bv]
          \<and> validation_sentence_accuracy st'
               = validation_sentence_accuracy st @ [batch_mean b_sent_acc bv])
       \<and> (\<exists>bs. list_all2 (scored toy_env False (1 / 2)) bs (uneven_valid_loader 0)
             \<and> map (\<lambda>d. length (encoded d)) (uneven_valid_loader 0) = [1, 3]
             \<and> sample_weighted bs = 1 / 4
             \<and> batch_mean (\<lambda>b. real_of_int (b_correct b) / real_of_int (b_total b)) bs = 1 / 2)"
proof -
  from epoch_histories[OF assms] obtain tr vr where h:
    "train_one_epoch env (trl epoch) (opt_teacher_forcing_ratio opts) (opt_max_grad_norm opts)
        (proc st) = Inr tr"
    "valid_one_epoch env (vl epoch) (opt_teacher_forcing_ratio opts) (snd tr) = Inr vr"
    "train_symbol_accuracy st' = train_symbol_accuracy st
         @ [real_of_int (res_correct_symbols (fst tr)) / real_of_int (res_total_symbols (fst tr))]"
    "train_sentence_accuracy st' = train_sentence_accuracy st
         @ [res_sent_acc (fst tr) / real_of_int (res_num_sent_acc (fst tr))]"
    "train_wer st' = train_wer st @ [res_wer (fst tr) / real_of_int (res_num_wer (fst tr))]"
    "validation_symbol_accuracy st' = validation_symbol_accuracy st
         @ [real_of_int (res_correct_symbols (fst vr)) / real_of_int (res_total_symbols (fst vr))]"
    "validation_sentence_accuracy st' = validation_sentence_accuracy st
         @ [res_sent_acc (fst vr) / real_of_int (res_num_sent_acc (fst vr))]"
    "validation_wer st' = validation_wer st
         @ [res_wer (fst vr) / real_of_int (res_num_wer (fst vr))]"
    by blast
  from train_one_epoch_Inr(4)[OF h(1)] obtain bt acct where
    bt: "list_all2 (scored env True (opt_teacher_forcing_ratio opts)) bt (trl epoch)"
    and acct: "adds pass_acc_init acct bt" "fst tr = result_of acct (Some (np_mean (grad_norms acct)))"
    by blast
  from valid_one_epoch_Inr(4)[OF h(2)] obtain bv accv where
    bv: "list_all2 (scored env False (opt_teacher_forcing_ratio opts)) bv (vl epoch)"
    and accv: "adds pass_acc_init accv bv" "fst vr = result_of accv None"
    by blast
  note sumt = pass_result_sums[OF bt acct]
  note sumv = pass_result_sums[OF bv accv]
  have lt: "length bt = length (trl epoch)" using bt by (rule list_all2_lengthD)
  have lv: "length bv = length (vl epoch)" using bv by (rule list_all2_lengthD)
  have first: "\<exists>bt bv.
            list_all2 (scored env True (opt_teacher_forcing_ratio opts)) bt (trl epoch)
          \<and> list_all2 (scored env False (opt_teacher_forcing_ratio opts)) bv (vl epoch)
          \<and> train_symbol_accuracy st' = train_symbol_accuracy st @ [sample_weighted bt]
          \<and> train_wer st' = train_wer st @ [batch_mean b_wer bt]
          \<and> train_sentence_accuracy st' = train_sentence_accuracy st @ [batch_mean b_sent_acc bt]
          \<and> validation_symbol_accuracy st' = validation_symbol_accuracy st @ [sample_weighted bv]
          \<and> validation_wer st' = validation_wer st @ [batch_mean b_wer bv]
          \<and> validation_sentence_accuracy st'
               = validation_sentence_accuracy st @ [batch_mean b_sent_acc bv]"
    apply (rule exI[of _ bt])
    apply (rule exI[of _ bv])
    using bt bv h(3-8) sumt sumv lt lv
    apply (simp add: sample_weighted_def batch_mean_def)
    done
  have second: "\<exists>bs. list_all2 (scored toy_env False (1 / 2)) bs (uneven_valid_loader 0)
             \<and> map (\<lambda>d. length (encoded d)) (uneven_valid_loader 0) = [1, 3]
             \<and> sample_weighted bs = 1 / 4
             \<and> batch_mean (\<lambda>b. real_of_int (b_correct b) / real_of_int (b_total b)) bs = 1 / 2"
    apply (rule exI[of _ "[\<lparr>b_wer = 0, b_sent_acc = 1, b_correct = 1, b_total = 1\<rparr>,
      \<lparr>b_wer = 1, b_sent_acc = 0, b_correct = 0, b_total = 3\<rparr>]"])
    using uneven_scored
    apply (simp add: sample_weighted_def batch_mean_def uneven_valid_loader_def)
    done
  from first second show ?thesis by (rule conjI)
qed

theorem epoch_averages_witness:
  "\<exists>st'. main_epoch toy_env toy_options [] (Some (StepLR 1 1)) 0 5 toy_train_loader
           uneven_valid_loader (main_init default_checkpoint toy_proc Map.empty) 0 = Inr st'
     \<and> (\<exists>bt bv.
            list_all2 (scored toy_env True (opt_teacher_forcing_ratio toy_options)) bt
              (toy_train_loader 0)
          \<and> list_all2 (scored toy_env False (opt_teacher_forcing_ratio toy_options)) bv
              (uneven_valid_loader 0)
          \<and> validation_symbol_accuracy st' = [sample_weighted bv]
          \<and> validation_wer st' = [batch_mean b_wer bv]
          \<and> validation_sentence_accuracy st' = [batch_mean b_sent_acc bv])"
proof -
  from uneven_epoch_run obtain st' where
    run: "main_epoch toy_env toy_options [] (Some (StepLR 1 1)) 0 5 toy_train_loader
           uneven_valid_loader (main_init default_checkpoint toy_proc Map.empty) 0 = Inr st'"
    by blast
  have init: "validation_symbol_accuracy (main_init default_checkpoint toy_proc Map.empty) = []"
    "validation_wer (main_init default_checkpoint toy_proc Map.empty) = []"
    "validation_sentence_accuracy (main_init default_checkpoint toy_proc Map.empty) = []"
    by (simp_all add: main_init_def default_checkpoint_def)
  from epoch_averages[OF run] run init show ?thesis by auto
qed

subsection \<open>Saving on strict improvement\<close>

text \<open>
  Claim C1. The best score starts at zero whatever the checkpoint holds. A run of \<open>n\<close>
  epochs that completes has one validation composite score
  \<open>0.9 * sentence accuracy + 0.1 * (1 - word error rate)\<close> per epoch, and it has called
  \<^verbatim>\<open>save_checkpoint\<close> in epoch \<open>i\<close> (the call that carries the epoch number
  \<open>start + i + 1\<close>) exactly when the score of epoch \<open>i\<close> is strictly greater than zero
  and than every score of an earlier epoch of the run. For the scores
  \<open>0.5, 0.4, 0.6, 0.6, 0.7\<close> the saves are those of the epochs with index 0, 2 and 4.
\<close>

theorem save_iff_strict_improvement:
  assumes "main_loop env opts od sch trl vl ckpt p fs n = Inr st"
  shows "best_sentence_acc (main_init ckpt p fs) = 0
       \<and> length (epoch_scores ckpt st) = n
       \<and> (\<forall>i<n. (\<exists>c\<in>set (saved st). ck_epoch c = ck_epoch ckpt + int i + 1)
                  \<longleftrightarrow> Max (insert 0 (set (take i (epoch_scores ckpt st))))
                        < epoch_scores ckpt st ! i)
       \<and> (epoch_scores ckpt st = [0.5, 0.4, 0.6, 0.6, 0.7]
            \<longrightarrow> map ck_epoch (saved st)
                  = [ck_epoch ckpt + 1, ck_epoch ckpt + 3, ck_epoch ckpt + 5])"
proof -
  let ?f = "\<lambda>sa w. 0.9 * sa + 0.1 * (1 - w) :: real"
  let ?g = "\<lambda>i. ck_epoch ckpt + int i + 1"
  from main_loop_saves[OF assms] obtain A W where AW: "length A = n" "length W = n"
    "validation_sentence_accuracy st = ck_validation_sentence_accuracy ckpt @ A"
    "validation_wer st = ck_validation_wer ckpt @ W"
    "map ck_epoch (saved st) = map ?g (improved_at (map2 ?f A W))"
    by blast
  have sc: "epoch_scores ckpt st = map2 ?f A W"
    by (simp add: epoch_scores_def AW(3,4))
  have len: "length (epoch_scores ckpt st) = n" using AW(1,2) by (simp add: sc)
  have sav: "map ck_epoch (saved st) = map ?g (improved_at (epoch_scores ckpt st))"
    using AW(5) sc by simp
  have iff: "(\<exists>c\<in>set (saved st). ck_epoch c = ?g i)
                  \<longleftrightarrow> Max (insert 0 (set (take i (epoch_scores ckpt st))))
                        < epoch_scores ckpt st ! i" if "i < n" for i
  proof -
    have "(\<exists>c\<in>set (saved st). ck_epoch c = ?g i) \<longleftrightarrow> ?g i \<in> set (map ck_epoch (saved st))"
      by force
    also have "\<dots> \<longleftrightarrow> ?g i \<in> ?g ` set (improved_at (epoch_scores ckpt st))"
      by (simp add: sav)
    also have "\<dots> \<longleftrightarrow> i \<in> set (improved_at (epoch_scores ckpt st))"
      by auto
    also have "\<dots> \<longleftrightarrow> Max (insert 0 (set (take i (epoch_scores ckpt st))))
                        < epoch_scores ckpt st ! i"
      using that len by (simp add: improved_at_def)
    finally show ?thesis .
  qed
  have ex: "epoch_scores ckpt st = [0.5, 0.4, 0.6, 0.6, 0.7]
            \<longrightarrow> map ck_epoch (saved st)
                  = [ck_epoch ckpt + 1, ck_epoch ckpt + 3, ck_epoch ckpt + 5]"
  proof
    assume eq: "epoch_scores ckpt st = [0.5, 0.4, 0.6, 0.6, 0.7]"
    have "map ck_epoch (saved st) = map ?g [0, 2, 4]"
      using sav unfolding eq improved_at_example .
    then show "map ck_epoch (saved st)
                  = [ck_epoch ckpt + 1, ck_epoch ckpt + 3, ck_epoch ckpt + 5]"
      by simp
  qed
  have init: "best_sentence_acc (main_init ckpt p fs) = 0" by (simp add: main_init_def)
  from init len iff ex show ?thesis by blast
qed

theorem save_iff_strict_improvement_witness:
  "\<exists>st. main_loop toy_env toy_options [] (Some (StepLR 1 1)) toy_train_loader toy_valid_loader
          default_checkpoint toy_proc Map.empty 5 = Inr st
     \<and> epoch_scores default_checkpoint st = [0.5, 0.4, 0.6, 0.6, 0.7]
     \<and> length (epoch_scores default_checkpoint st) = 5
     \<and> (\<forall>i<5. (\<exists>c\<in>set (saved st). ck_epoch c = ck_epoch default_checkpoint + int i + 1)
                  \<longleftrightarrow> Max (insert 0 (set (take i (epoch_scores default_checkpoint st))))
                        < epoch_scores default_checkpoint st ! i)
     \<and> map ck_epoch (saved st)
          = [ck_epoch default_checkpoint + 1, ck_epoch default_checkpoint + 3,
             ck_epoch default_checkpoint + 5]"
proof -
  from toy_five_epochs obtain st where
    run: "main_loop toy_env toy_options [] (Some (StepLR 1 1)) toy_train_loader toy_valid_loader
          default_checkpoint toy_proc Map.empty 5 = Inr st"
    and sc: "epoch_scores default_checkpoint st = [0.5, 0.4, 0.6, 0.6, 0.7]"
    by blast
  note t = save_iff_strict_improvement[OF run]
  have a: "length (epoch_scores default_checkpoint st) = 5"
    using t by (elim conjE)
  have b: "\<forall>i<5. (\<exists>c\<in>set (saved st). ck_epoch c = ck_epoch default_checkpoint + int i + 1)
                  \<longleftrightarrow> Max (insert 0 (set (take i (epoch_scores default_checkpoint st))))
                        < epoch_scores default_checkpoint st ! i"
    using t by (elim conjE)
  have c: "epoch_scores default_checkpoint st = [0.5, 0.4, 0.6, 0.6, 0.7]
      \<longrightarrow> map ck_epoch (saved st)
          = [ck_epoch default_checkpoint + 1, ck_epoch default_checkpoint + 3,
             ck_epoch default_checkpoint + 5]"
    using t by (elim conjE)
  from c sc have d: "map ck_epoch (saved st)
          = [ck_epoch default_checkpoint + 1, ck_epoch default_checkpoint + 3,
             ck_epoch default_checkpoint + 5]"
    by (rule mp)
  show ?thesis by (rule exI[of _ st]) (intro conjI run sc a b d)
qed

subsection \<open>The lengths of the histories\<close>




subsection \<open>The weights of the composite score\<close>

text \<open>
  Claim C7, as the code has it. The save decision compares the best score with
  \<open>0.9 * sentence accuracy + 0.1 * (1 - word error rate)\<close>, and the best score becomes
  the larger of the two; the weights are the literals \<open>0.9\<close> and \<open>0.1\<close> of the
  comparison, and two runs of the block that differ in nothing but their options and
  their configuration dictionary decide alike.
\<close>

theorem composite_weights_are_fixed:
  assumes "save_block env opts od se epoch lr vsa vwer st = Inr st1"
    and "save_block env opts' od' se epoch lr vsa vwer st = Inr st2"
  shows "(length (saved st1) = Suc (length (saved st))
            \<longleftrightarrow> best_sentence_acc st < 0.9 * vsa + 0.1 * (1 - vwer))
       \<and> (saved st1 = saved st \<longleftrightarrow> \<not> best_sentence_acc st < 0.9 * vsa + 0.1 * (1 - vwer))
       \<and> best_sentence_acc st1 = max (best_sentence_acc st) (0.9 * vsa + 0.1 * (1 - vwer))
       \<and> length (saved st2) = length (saved st1)
       \<and> best_sentence_acc st2 = best_sentence_acc st1"
proof (cases "best_sentence_acc st < 0.9 * vsa + 0.1 * (1 - vwer)")
  case True
  with save_block_Inr[OF assms(1)] obtain c fs where
    1: "st1 = st\<lparr>files := fs, saved := saved st @ [c],
                  best_sentence_acc := 0.9 * vsa + 0.1 * (1 - vwer)\<rparr>"
    by blast
  from True save_block_Inr[OF assms(2)] obtain c' fs' where
    2: "st2 = st\<lparr>files := fs', saved := saved st @ [c'],
                  best_sentence_acc := 0.9 * vsa + 0.1 * (1 - vwer)\<rparr>"
    by blast
  show ?thesis using True by (simp add: 1 2 max_def)
next
  case False
  with save_block_Inr[OF assms(1)] have 1: "st1 = st" by blast
  from False save_block_Inr[OF assms(2)] have 2: "st2 = st" by blast
  show ?thesis using False by (simp add: 1 2 max_def)
qed

theorem composite_weights_are_fixed_witness:
  "\<exists>st1 st2.
      save_block toy_env toy_options [] 0 0 [] 0 (1 / 2)
        (main_init default_checkpoint toy_proc Map.empty\<lparr>best_sentence_acc := 1 / 10\<rparr>) = Inr st1
    \<and> save_block toy_env
        (toy_options\<lparr>opt_others := [(''sentence_acc_weight'', 1 / 2), (''wer_weight'', 1 / 2)]\<rparr>)
        [(''wer_weight'', ''0.5'')] 0 0 [] 0 (1 / 2)
        (main_init default_checkpoint toy_proc Map.empty\<lparr>best_sentence_acc := 1 / 10\<rparr>) = Inr st2
    \<and> saved st1
        = saved (main_init default_checkpoint toy_proc Map.empty\<lparr>best_sentence_acc := 1 / 10\<rparr>)
    \<and> length (saved st2) = length (saved st1)
    \<and> best_sentence_acc st2 = best_sentence_acc st1"
proof -
  let ?st = "main_init default_checkpoint toy_proc Map.empty\<lparr>best_sentence_acc := 1 / 10\<rparr>"
  let ?opts = "toy_options\<lparr>opt_others := [(''sentence_acc_weight'', 1 / 2),
                                            (''wer_weight'', 1 / 2)]\<rparr>"
  have a: "save_block toy_env toy_options [] 0 0 [] 0 (1 / 2) ?st = Inr ?st"
    by (simp add: save_block_def main_init_def)
  have b: "save_block toy_env ?opts [(''wer_weight'', ''0.5'')] 0 0 [] 0 (1 / 2) ?st = Inr ?st"
    by (simp add: save_block_def main_init_def)
  note t = composite_weights_are_fixed[OF a b]
  show ?thesis
    apply (rule exI[of _ ?st])
    apply (rule exI[of _ ?st])
    using a b t
    apply simp
    done
qed

text \<open>
  The claim as stated has the two weights configurable. No pair of options and
  configuration dictionaries makes the block decide differently, or leave a different
  best score, on the same scores.
\<close>

theorem composite_weights_not_configurable:
  "\<not> (\<exists>opts opts' od od' se epoch lr vsa vwer (st :: nat main_state) st1 st2.
        save_block toy_env opts od se epoch lr vsa vwer st = Inr st1
      \<and> save_block toy_env opts' od' se epoch lr vsa vwer st = Inr st2
      \<and> (length (saved st1) \<noteq> length (saved st2)
          \<or> best_sentence_acc st1 \<noteq> best_sentence_acc st2))"
proof
  assume "\<exists>opts opts' od od' se epoch lr vsa vwer (st :: nat main_state) st1 st2.
        save_block toy_env opts od se epoch lr vsa vwer st = Inr st1
      \<and> save_block toy_env opts' od' se epoch lr vsa vwer st = Inr st2
      \<and> (length (saved st1) \<noteq> length (saved st2)
          \<or> best_sentence_acc st1 \<noteq> best_sentence_acc st2)"
  then obtain opts opts' od od' se epoch lr vsa vwer and st :: "nat main_state" and st1 st2 where
    a: "save_block toy_env opts od se epoch lr vsa vwer st = Inr st1"
    and b: "save_block toy_env opts' od' se epoch lr vsa vwer st = Inr st2"
    and c: "length (saved st1) \<noteq> length (saved st2)
          \<or> best_sentence_acc st1 \<noteq> best_sentence_acc st2"
    by blast
  from save_block_Inr[OF a] save_block_Inr[OF b] c show False
    by (cases "best_sentence_acc st < 0.9 * vsa + 0.1 * (1 - vwer)") auto
qed

subsection \<open>Loading a checkpoint\<close>

text \<open>
  Claim C9. With an empty checkpoint path \<^verbatim>\<open>main\<close> takes \<^verbatim>\<open>default_checkpoint\<close>:
  epoch 0, every history empty, no weights and an empty vocabulary, and nothing to
  report. With a path and no accelerator, what \<^verbatim>\<open>main\<close> gets is the file's content
  with every storage on the host: all the weights of the network, and the buffers of
  the optimiser state if there is one, reside on the CPU.
\<close>

theorem checkpoint_selection:
  "(opt_checkpoint opts = [] \<longrightarrow>
       select_checkpoint opts fs is_cuda = Inr default_checkpoint
     \<and> report_checkpoint default_checkpoint = Inr ()
     \<and> ck_epoch default_checkpoint = 0
     \<and> ck_train_losses default_checkpoint = [] \<and> ck_validation_losses default_checkpoint = []
     \<and> ck_train_symbol_accuracy default_checkpoint = []
     \<and> ck_validation_symbol_accuracy default_checkpoint = []
     \<and> ck_train_sentence_accuracy default_checkpoint = []
     \<and> ck_validation_sentence_accuracy default_checkpoint = []
     \<and> ck_train_wer default_checkpoint = [] \<and> ck_validation_wer default_checkpoint = []
     \<and> ck_lr default_checkpoint = [] \<and> ck_grad_norm default_checkpoint = []
     \<and> ck_model default_checkpoint = []
     \<and> ck_token_to_id default_checkpoint = [] \<and> ck_id_to_token default_checkpoint = [])
   \<and> (opt_checkpoint opts \<noteq> [] \<and> select_checkpoint opts fs False = Inr c \<longrightarrow>
       (\<exists>c0. fs (opt_checkpoint opts) = Some c0
            \<and> c = map_storages (\<lambda>s. s\<lparr>device := Cpu\<rparr>) c0)
     \<and> (\<forall>(k, s)\<in>set (ck_model c). device s = Cpu)
     \<and> (\<forall>opt. ck_optimizer c = Some opt \<longrightarrow> (\<forall>(k, s)\<in>set (buffers opt). device s = Cpu)))"
proof (intro conjI impI)
  assume h: "opt_checkpoint opts \<noteq> [] \<and> select_checkpoint opts fs False = Inr c"
  then have "load_checkpoint fs (opt_checkpoint opts) False = Inr c"
    by (auto simp: select_checkpoint_def)
  from load_checkpoint_host[OF this] obtain c0 where
    c0: "fs (opt_checkpoint opts) = Some c0" "c = map_storages (\<lambda>s. s\<lparr>device := Cpu\<rparr>) c0"
    by blast
  then show "\<exists>c0. fs (opt_checkpoint opts) = Some c0
            \<and> c = map_storages (\<lambda>s. s\<lparr>device := Cpu\<rparr>) c0"
    by blast
  show "\<forall>(k, s)\<in>set (ck_model c). device s = Cpu"
    using map_state_dict_cpu[of "ck_model c0"] by (simp add: c0(2) map_storages_def)
  show "\<forall>opt. ck_optimizer c = Some opt \<longrightarrow> (\<forall>(k, s)\<in>set (buffers opt). device s = Cpu)"
  proof (intro allI impI)
    fix opt assume "ck_optimizer c = Some opt"
    then obtain opt0 where "ck_optimizer c0 = Some opt0"
      "opt = opt0\<lparr>buffers := map_state_dict (\<lambda>s. s\<lparr>device := Cpu\<rparr>) (buffers opt0)\<rparr>"
      by (auto simp: c0(2) map_storages_def split: option.splits)
    then show "\<forall>(k, s)\<in>set (buffers opt). device s = Cpu"
      using map_state_dict_cpu[of "buffers opt0"] by simp
  qed
qed (simp_all add: select_checkpoint_def default_checkpoint_def report_checkpoint_def)

theorem checkpoint_selection_witness:
  "opt_checkpoint toy_options = []
   \<and> select_checkpoint toy_options Map.empty False = Inr default_checkpoint
   \<and> opt_checkpoint resume_options \<noteq> []
   \<and> (\<exists>c. select_checkpoint resume_options
             [''log/checkpoints/SATRN_best_model.pth'' \<mapsto> resumed_checkpoint] False = Inr c
        \<and> ck_model c = [(''weight'', \<lparr>device = Cpu, payload = [1]\<rparr>)]
        \<and> (\<forall>(k, s)\<in>set (ck_model c). device s = Cpu))"
proof -
  have a: "opt_checkpoint toy_options = []" by (simp add: toy_options_def)
  have b: "opt_checkpoint resume_options \<noteq> []" by (simp add: resume_options_def)
  let ?fs = "[''log/checkpoints/SATRN_best_model.pth'' \<mapsto> resumed_checkpoint]"
  let ?c = "map_storages (\<lambda>s. s\<lparr>device := Cpu\<rparr>) resumed_checkpoint"
  have run: "select_checkpoint resume_options ?fs False = Inr ?c"
    by (simp add: select_checkpoint_def resume_options_def load_checkpoint_def torch_load_def)
  have m: "ck_model ?c = [(''weight'', \<lparr>device = Cpu, payload = [1]\<rparr>)]"
    by (simp add: map_storages_def map_state_dict_def resumed_checkpoint_def)
  note t1 = checkpoint_selection[where opts = toy_options and fs = Map.empty
      and is_cuda = False and c = ?c, THEN conjunct1, rule_format, OF a]
  note t2 = checkpoint_selection[where opts = resume_options and fs = ?fs
      and is_cuda = False and c = ?c, THEN conjunct2, rule_format, OF conjI[OF b run]]
  have c: "select_checkpoint toy_options Map.empty False = Inr default_checkpoint"
    using t1 by (elim conjE)
  have d: "\<forall>(k, s)\<in>set (ck_model ?c). device s = Cpu"
    using t2 by (elim conjE)
  show ?thesis
    using a b c run m d by blast
qed

subsection \<open>The learning rate of the optimiser\<close>

text \<open>
  Claim C10. \<^verbatim>\<open>get_optimizer\<close> belongs to a module that is not among the source files;
  it is a parameter here, assumed to give every parameter group the rate it is called
  with. Under \<^verbatim>\<open>"CustomCosine"\<close> \<^verbatim>\<open>main\<close> calls it with the rate 0 and hands the
  configured rate to the schedule as \<^verbatim>\<open>eta_max\<close>, with \<^verbatim>\<open>T_0 = num_epochs\<close>,
  \<^verbatim>\<open>T_mult = 1\<close>, \<^verbatim>\<open>T_up = 2\<close> and \<^verbatim>\<open>gamma = 1\<close>; under every other name it calls it
  with the configured rate. With no saved optimiser state the optimiser is the one
  \<^verbatim>\<open>get_optimizer\<close> returned, so its groups carry 0 under \<^verbatim>\<open>"CustomCosine"\<close> and the
  configured rate otherwise; with a saved state \<^verbatim>\<open>load_state_dict\<close> puts the saved
  groups in their place. Once the schedule is constructed on the optimiser, with the
  schedule as the specification describes it (at step 0 of its first window, its rate
  assigned to every group), every group carries the rate 0, whether the optimiser was
  built afresh or loaded. This is the optimiser the first training pass starts with;
  until the first \<^verbatim>\<open>lr_scheduler.step()\<close>, which ends the first batch, the source calls
  on it only \<^verbatim>\<open>zero_grad\<close> and the scaler's \<^verbatim>\<open>unscale_\<close> and \<^verbatim>\<open>step\<close>.
\<close>

theorem optimizer_learning_rate:
  assumes "\<And>name lr wd opt. get_optimizer name lr wd = Inr opt
             \<Longrightarrow> \<forall>g\<in>set (param_groups opt). pg_lr g = lr"
    and "build_optimizer get_optimizer opts ckpt = Inr optimizer"
  shows "(\<exists>opt. get_optimizer (opt_optimizer opts)
                  (if opt_scheduler opts = ''CustomCosine'' then 0 else opt_lr opts)
                  (opt_weight_decay opts) = Inr opt
             \<and> (case ck_optimizer ckpt of
                   None \<Rightarrow> optimizer = opt
                 | Some optimizer_state \<Rightarrow> optimizer = optimizer_state))
       \<and> (opt_scheduler opts = ''CustomCosine'' \<and> ck_optimizer ckpt = None
            \<longrightarrow> (\<forall>g\<in>set (param_groups optimizer). pg_lr g = 0))
       \<and> (opt_scheduler opts = ''CustomCosine''
            \<longrightarrow> (\<exists>optimizer'.
                    build_scheduler ctor opts len_train optimizer
                      = Inr (optimizer',
                             Some (CustomCosineAnnealingWarmUpRestarts (opt_num_epochs opts) 1
                                     (opt_lr opts) 2 1))
                  \<and> length (param_groups optimizer') = length (param_groups optimizer)
                  \<and> (\<forall>g\<in>set (param_groups optimizer'). pg_lr g = 0)))
       \<and> (opt_scheduler opts \<noteq> ''CustomCosine'' \<and> ck_optimizer ckpt = None
            \<longrightarrow> (\<forall>g\<in>set (param_groups optimizer). pg_lr g = opt_lr opts))"
proof -
  let ?lr = "if opt_scheduler opts = ''CustomCosine'' then 0 else opt_lr opts"
  from assms(2) obtain opt where
    opt: "get_optimizer (opt_optimizer opts) ?lr (opt_weight_decay opts) = Inr opt"
    and res: "(case ck_optimizer ckpt of
                 None \<Rightarrow> Inr opt
               | Some optimizer_state \<Rightarrow> load_state_dict optimizer_state opt) = Inr optimizer"
    by (auto simp: build_optimizer_def split: sum.splits if_splits)
  have shape: "case ck_optimizer ckpt of
                   None \<Rightarrow> optimizer = opt
                 | Some optimizer_state \<Rightarrow> optimizer = optimizer_state"
    using res by (auto simp: load_state_dict_def split: option.splits if_splits)
  have first: "\<exists>opt. get_optimizer (opt_optimizer opts) ?lr (opt_weight_decay opts) = Inr opt
             \<and> (case ck_optimizer ckpt of
                   None \<Rightarrow> optimizer = opt
                 | Some optimizer_state \<Rightarrow> optimizer = optimizer_state)"
    using opt shape by blast
  have lr: "\<forall>g\<in>set (param_groups opt). pg_lr g = ?lr" using assms(1)[OF opt] .
  have zero: "opt_scheduler opts = ''CustomCosine'' \<and> ck_optimizer ckpt = None
            \<longrightarrow> (\<forall>g\<in>set (param_groups optimizer). pg_lr g = 0)"
    using lr shape by auto
  have start: "current_rate (cosine_start T0 Tm em 2 ga) = 0" for T0 Tm em ga
    by (simp add: current_rate_def cosine_start_def)
  have sched: "opt_scheduler opts = ''CustomCosine''
            \<longrightarrow> (\<exists>optimizer'.
                    build_scheduler ctor opts len_train optimizer
                      = Inr (optimizer',
                             Some (CustomCosineAnnealingWarmUpRestarts (opt_num_epochs opts) 1
                                     (opt_lr opts) 2 1))
                  \<and> length (param_groups optimizer') = length (param_groups optimizer)
                  \<and> (\<forall>g\<in>set (param_groups optimizer'). pg_lr g = 0))"
  proof
    assume cc: "opt_scheduler opts = ''CustomCosine''"
    have "build_scheduler ctor opts len_train optimizer
                      = Inr (assign_rate 0 optimizer,
                             Some (CustomCosineAnnealingWarmUpRestarts (opt_num_epochs opts) 1
                                     (opt_lr opts) 2 1))"
      using cc by (simp add: build_scheduler_def start)
    moreover have "length (param_groups (assign_rate 0 optimizer)) = length (param_groups optimizer)"
      by (simp add: assign_rate_def)
    moreover have "\<forall>g\<in>set (param_groups (assign_rate 0 optimizer)). pg_lr g = 0"
      by (auto simp: assign_rate_def)
    ultimately show "\<exists>optimizer'.
                    build_scheduler ctor opts len_train optimizer
                      = Inr (optimizer',
                             Some (CustomCosineAnnealingWarmUpRestarts (opt_num_epochs opts) 1
                                     (opt_lr opts) 2 1))
                  \<and> length (param_groups optimizer') = length (param_groups optimizer)
                  \<and> (\<forall>g\<in>set (param_groups optimizer'). pg_lr g = 0)"
      by blast
  qed
  have other: "opt_scheduler opts \<noteq> ''CustomCosine'' \<and> ck_optimizer ckpt = None
            \<longrightarrow> (\<forall>g\<in>set (param_groups optimizer). pg_lr g = opt_lr opts)"
    using lr shape by auto
  from first zero sched other show ?thesis by (intro conjI)
qed

theorem optimizer_learning_rate_witness:
  "build_optimizer toy_get_optimizer resume_options
     (map_storages (\<lambda>s. s\<lparr>device := Cpu\<rparr>) resumed_checkpoint)
   = Inr \<lparr>param_groups = [\<lparr>pg_lr = 1 / 10, pg_weight_decay = 0, pg_initial_lr = None\<rparr>],
          buffers = [(''exp_avg'', \<lparr>device = Cpu, payload = [0]\<rparr>)]\<rparr>
   \<and> opt_scheduler resume_options = ''CustomCosine''
   \<and> (\<exists>optimizer'.
         build_scheduler (\<lambda>s opt. opt) resume_options 1
           \<lparr>param_groups = [\<lparr>pg_lr = 1 / 10, pg_weight_decay = 0, pg_initial_lr = None\<rparr>],
            buffers = [(''exp_avg'', \<lparr>device = Cpu, payload = [0]\<rparr>)]\<rparr>
           = Inr (optimizer',
                  Some (CustomCosineAnnealingWarmUpRestarts (opt_num_epochs resume_options) 1
                          (opt_lr resume_options) 2 1))
       \<and> (\<forall>g\<in>set (param_groups optimizer'). pg_lr g = 0))"
proof -
  have a: "opt_scheduler resume_options = ''CustomCosine''"
    by (simp add: resume_options_def toy_options_def)
  note t = optimizer_learning_rate[where get_optimizer = toy_get_optimizer
      and ctor = "\<lambda>s opt. opt" and len_train = 1,
      OF toy_get_optimizer_lr resumed_build_optimizer]
  note c = t[THEN conjunct2, THEN conjunct2, THEN conjunct1]
  from c a have "\<exists>optimizer'.
         build_scheduler (\<lambda>s opt. opt) resume_options 1
           \<lparr>param_groups = [\<lparr>pg_lr = 1 / 10, pg_weight_decay = 0, pg_initial_lr = None\<rparr>],
            buffers = [(''exp_avg'', \<lparr>device = Cpu, payload = [0]\<rparr>)]\<rparr>
           = Inr (optimizer',
                  Some (CustomCosineAnnealingWarmUpRestarts (opt_num_epochs resume_options) 1
                          (opt_lr resume_options) 2 1))
       \<and> length (param_groups optimizer')
           = length (param_groups
               \<lparr>param_groups = [\<lparr>pg_lr = 1 / 10, pg_weight_decay = 0, pg_initial_lr = None\<rparr>],
                buffers = [(''exp_avg'', \<lparr>device = Cpu, payload = [0]\<rparr>)]\<rparr>)
       \<and> (\<forall>g\<in>set (param_groups optimizer'). pg_lr g = 0)"
    by (rule mp)
  then have d: "\<exists>optimizer'.
         build_scheduler (\<lambda>s opt. opt) resume_options 1
           \<lparr>param_groups = [\<lparr>pg_lr = 1 / 10, pg_weight_decay = 0, pg_initial_lr = None\<rparr>],
            buffers = [(''exp_avg'', \<lparr>device = Cpu, payload = [0]\<rparr>)]\<rparr>
           = Inr (optimizer',
                  Some (CustomCosineAnnealingWarmUpRestarts (opt_num_epochs resume_options) 1
                          (opt_lr resume_options) 2 1))
       \<and> (\<forall>g\<in>set (param_groups optimizer'). pg_lr g = 0)"
    by blast
  show ?thesis by (intro conjI resumed_build_optimizer a d)
qed

end
